theory Spec2Isabelle
  imports Main
begin

section \<open>Go values shared by both controllers\<close>

text \<open>
  A Go \<^verbatim>\<open>error\<close> is \<open>error option\<close>: \<open>None\<close> is \<^verbatim>\<open>nil\<close>.  The constructors are the
  error values the two controllers create or receive: \<^verbatim>\<open>errors.New\<close>, the wrapper of
  \<^verbatim>\<open>errors.Wrap\<close> (cause and message), a \<^verbatim>\<open>*googleapi.Error\<close> (HTTP code and message), a
  Kubernetes API status error (reason and message) and any other error.
\<close>

type_synonym bytes = string

datatype error =
    ErrorNew string
  | WithMessage error string
  | GoogleapiError nat string
  | StatusError string string
  | OtherError string

text \<open>\<^verbatim>\<open>errors.Wrap\<close> of github.com/pkg/errors: a nil error stays nil.\<close>

fun Wrap :: "error option \<Rightarrow> string \<Rightarrow> error option" where
  "Wrap None msg = None"
| "Wrap (Some err) msg = Some (WithMessage err msg)"

text \<open>\<^verbatim>\<open>resource.Ignore\<close> of crossplane-runtime: nil when the predicate holds of the error.\<close>

definition Ignore :: "(error option \<Rightarrow> bool) \<Rightarrow> error option \<Rightarrow> error option" where
  "Ignore is_fn err = (if is_fn err then None else err)"

definition StatusNotFound :: nat where
  "StatusNotFound = 404"

definition StatusConflict :: nat where
  "StatusConflict = 409"

text \<open>
  Modelled from the spec: the helpers \<^verbatim>\<open>IsErrorNotFound\<close> and \<^verbatim>\<open>IsErrorAlreadyExists\<close> of
  the repository's clients package are not among the source files.  They recognise the
  provider-reported "not found" and "already exists" outcomes: a \<^verbatim>\<open>*googleapi.Error\<close>
  whose code is \<^verbatim>\<open>http.StatusNotFound\<close>, respectively \<^verbatim>\<open>http.StatusConflict\<close>; nil and
  every other error value are neither.
\<close>

fun IsErrorNotFound :: "error option \<Rightarrow> bool" where
  "IsErrorNotFound (Some (GoogleapiError code msg)) = (code = StatusNotFound)"
| "IsErrorNotFound err = False"

fun IsErrorAlreadyExists :: "error option \<Rightarrow> bool" where
  "IsErrorAlreadyExists (Some (GoogleapiError code msg)) = (code = StatusConflict)"
| "IsErrorAlreadyExists err = False"

text \<open>\<^verbatim>\<open>kerrors.IsNotFound\<close> and \<^verbatim>\<open>resource.IgnoreNotFound\<close> for the Kubernetes client.\<close>

fun IsNotFound :: "error option \<Rightarrow> bool" where
  "IsNotFound (Some (StatusError reason msg)) = (reason = ''NotFound'')"
| "IsNotFound err = False"

definition IgnoreNotFound :: "error option \<Rightarrow> error option" where
  "IgnoreNotFound err = Ignore IsNotFound err"

record object_reference =
  ref_Namespace :: string
  ref_Name :: string

record namespaced_name =
  nn_Namespace :: string
  nn_Name :: string

text \<open>
  \<^verbatim>\<open>meta.NamespacedNameOf\<close> dereferences its pointer argument: on a nil reference the Go
  code panics, which is \<open>None\<close> here.
\<close>

fun NamespacedNameOf :: "object_reference option \<Rightarrow> namespaced_name option" where
  "NamespacedNameOf None = None"
| "NamespacedNameOf (Some r) = Some \<lparr>nn_Namespace = ref_Namespace r, nn_Name = ref_Name r\<rparr>"

definition nn_String :: "namespaced_name \<Rightarrow> string" where
  "nn_String n = nn_Namespace n @ ''/'' @ nn_Name n"

record secret =
  secret_Data :: "string \<rightharpoonup> bytes"

definition empty_secret :: secret where
  "empty_secret = \<lparr>secret_Data = Map.empty\<rparr>"

record provider =
  provider_Namespace :: string
  provider_SecretName :: string
  provider_SecretKey :: string
  provider_ProjectID :: string

text \<open>
  \<^verbatim>\<open>resource.ConnectionDetails\<close> is \<^verbatim>\<open>map[string][]byte\<close>; the nil map is the empty map.
  Indexing a Go map at a missing key gives the nil slice, of length 0.
\<close>

type_synonym connection_details = "string \<rightharpoonup> bytes"

definition at_key :: "(string \<rightharpoonup> bytes) \<Rightarrow> string \<Rightarrow> bytes" where
  "at_key m k = (case m k of None \<Rightarrow> [] | Some v \<Rightarrow> v)"

record ExternalObservation =
  ResourceExists :: bool
  ResourceUpToDate :: bool
  ConnectionDetails :: connection_details

definition ExternalObservation_zero :: ExternalObservation where
  "ExternalObservation_zero =
     \<lparr>ResourceExists = False, ResourceUpToDate = False, ConnectionDetails = Map.empty\<rparr>"

text \<open>Conditions of crossplane-runtime: type, status and reason (the time is left out).\<close>

record condition =
  cond_Type :: string
  cond_Status :: string
  cond_Reason :: string

definition TypeReady :: string where
  "TypeReady = ''Ready''"

definition Available :: condition where
  "Available = \<lparr>cond_Type = TypeReady, cond_Status = ''True'',
     cond_Reason = ''Resource is available for use''\<rparr>"

definition Creating :: condition where
  "Creating = \<lparr>cond_Type = TypeReady, cond_Status = ''False'',
     cond_Reason = ''Resource is being created''\<rparr>"

definition Unavailable :: condition where
  "Unavailable = \<lparr>cond_Type = TypeReady, cond_Status = ''False'',
     cond_Reason = ''Resource is not available for use''\<rparr>"

text \<open>
  \<^verbatim>\<open>ConditionedStatus.SetConditions\<close> with one condition: every condition of the same type
  becomes the new one; when there is none, the new one is appended.
\<close>

definition SetConditions :: "condition list \<Rightarrow> condition \<Rightarrow> condition list" where
  "SetConditions cs new =
     (if list_ex (\<lambda>existing. cond_Type existing = cond_Type new) cs
      then map (\<lambda>existing. if cond_Type existing \<noteq> cond_Type new then existing else new) cs
      else cs @ [new])"

datatype binding_phase =
    BindingPhaseUnset
  | BindingPhaseUnbindable
  | BindingPhaseUnbound
  | BindingPhaseBound
  | BindingPhaseReleased

section \<open>The database instance controller\<close>

subsection \<open>Data\<close>

record ip_mapping =
  IPAddress :: string
  IPType :: string

text \<open>
  Modelled from the spec: the types \<^verbatim>\<open>CloudsqlInstanceParameters\<close>,
  \<^verbatim>\<open>CloudsqlInstanceObservation\<close> and their constants live in the repository's API package,
  which is not among the source files.  The specification sub-record is the list of its
  set fields (field name and value, an unset optional field has no entry); the provider's
  \<^verbatim>\<open>sqladmin.DatabaseInstance\<close> carries its name, lifecycle phase, addresses and the
  concrete values of the same fields.
\<close>

type_synonym parameters = "(string \<times> string) list"

record database_instance =
  inst_Name :: string
  inst_State :: string
  inst_IpAddresses :: "ip_mapping list"
  inst_Fields :: "(string \<times> string) list"

record observation =
  obs_State :: string
  obs_IPAddresses :: "ip_mapping list"

record cloudsql_instance =
  cr_Namespace :: string
  cr_ExternalName :: string
  cr_ProviderReference :: "object_reference option"
  cr_WriteConnectionSecretToReference :: string
  cr_ForProvider :: parameters
  cr_AtProvider :: observation
  cr_Conditions :: "condition list"
  cr_BindingPhase :: binding_phase

text \<open>
  Modelled from the spec: the constants below are declared in the API packages, which are
  not among the source files.  The lifecycle phases ("Creating, Runnable/Ready, Suspended,
  Maintenance, Failed, Unknown") and the two address types are distinct strings; the keys
  of the connection details are "the fixed names username, password, endpoint, plus
  privateIP, publicIP"; \<^verbatim>\<open>PasswordLength\<close> is the "fixed minimum-length policy" handed to the
  password generator.
\<close>

definition StateRunnable :: string where "StateRunnable = ''RUNNABLE''"
definition StateCreating :: string where "StateCreating = ''PENDING_CREATE''"
definition StateCreationFailed :: string where "StateCreationFailed = ''FAILED''"
definition StateSuspended :: string where "StateSuspended = ''SUSPENDED''"
definition StateMaintenance :: string where "StateMaintenance = ''MAINTENANCE''"
definition StateUnknownState :: string where "StateUnknownState = ''UNKNOWN_STATE''"

definition PrivateIPType :: string where "PrivateIPType = ''PRIVATE''"
definition PublicIPType :: string where "PublicIPType = ''PRIMARY''"

definition PrivateIPKey :: string where "PrivateIPKey = ''privateIP''"
definition PublicIPKey :: string where "PublicIPKey = ''publicIP''"
definition ResourceCredentialsSecretUserKey :: string where
  "ResourceCredentialsSecretUserKey = ''username''"
definition ResourceCredentialsSecretPasswordKey :: string where
  "ResourceCredentialsSecretPasswordKey = ''password''"
definition ResourceCredentialsSecretEndpointKey :: string where
  "ResourceCredentialsSecretEndpointKey = ''endpoint''"

definition PasswordLength :: nat where "PasswordLength = 20"

text \<open>
  Modelled from the spec: \<^verbatim>\<open>cloudsql.GenerateObservation\<close> is not among the source files.
  "Copy ObservedState into record.status": the lifecycle phase and the assigned addresses.
\<close>

definition GenerateObservation :: "database_instance \<Rightarrow> observation" where
  "GenerateObservation inst =
     \<lparr>obs_State = inst_State inst, obs_IPAddresses = inst_IpAddresses inst\<rparr>"

text \<open>
  Modelled from the spec: \<^verbatim>\<open>cloudsql.LateInitializeSpec\<close> is not among the source files.
  "For every optional field in record.spec left unset by the user, if ObservedState
  carries an equivalent concrete value, copy it into record.spec.  Never overwrites a
  field the user has explicitly set, even if it disagrees with ObservedState."
\<close>

definition LateInitializeSpec :: "parameters \<Rightarrow> database_instance \<Rightarrow> parameters" where
  "LateInitializeSpec spec inst =
     spec @ filter (\<lambda>(field, v). map_of spec field = None) (inst_Fields inst)"

text \<open>
  Modelled from the spec: \<^verbatim>\<open>cloudsql.GenerateDatabaseInstance\<close> is not among the source
  files.  "Translate record.spec into a provider-native creation payload, tagged with the
  record's external name."
\<close>

definition GenerateDatabaseInstance :: "parameters \<Rightarrow> string \<Rightarrow> database_instance" where
  "GenerateDatabaseInstance spec name =
     \<lparr>inst_Name = name, inst_State = [], inst_IpAddresses = [], inst_Fields = spec\<rparr>"

record sql_user =
  user_Name :: string
  user_Host :: string
  user_Password :: string

subsection \<open>Collaborators\<close>

text \<open>
  The Kubernetes client, the two sqladmin services and the password generator are
  external.  Each is the function from a request to the outcome of that request, and
  every request made is recorded, in order, in the list of calls an operation returns.
\<close>

record kube_client =
  kube_Get_Provider :: "namespaced_name \<Rightarrow> error + provider"
  kube_Get_Secret :: "namespaced_name \<Rightarrow> error + secret"
  kube_Update :: "cloudsql_instance \<Rightarrow> error option"

record instances_service =
  db_Get :: "string \<Rightarrow> string \<Rightarrow> error + database_instance"
  db_Insert :: "string \<Rightarrow> database_instance \<Rightarrow> error option"
  db_Patch :: "string \<Rightarrow> string \<Rightarrow> database_instance \<Rightarrow> error option"
  db_Delete :: "string \<Rightarrow> string \<Rightarrow> error option"

record users_service =
  user_List :: "string \<Rightarrow> string \<Rightarrow> error + sql_user list"
  user_Update :: "string \<Rightarrow> string \<Rightarrow> string \<Rightarrow> string \<Rightarrow> sql_user \<Rightarrow> error option"

record sqladmin_service =
  svc_Instances :: instances_service
  svc_Users :: users_service

text \<open>
  \<^verbatim>\<open>lib_GeneratePassword\<close> is \<^verbatim>\<open>util.GeneratePassword\<close> of crossplane-runtime with the outcome
  of its random source; \<^verbatim>\<open>lib_DatabaseUserName\<close> is the method \<^verbatim>\<open>DatabaseUserName\<close> of the
  record, declared in the API package that is not among the source files;
  \<^verbatim>\<open>lib_NewService\<close> is \<^verbatim>\<open>sqladmin.NewService\<close>, from the credentials JSON.
\<close>

record lib =
  lib_GeneratePassword :: "nat \<Rightarrow> error + string"
  lib_DatabaseUserName :: "cloudsql_instance \<Rightarrow> string"
  lib_NewService :: "bytes \<Rightarrow> error + sqladmin_service"

record cloudsqlConnector =
  conn_kube :: kube_client
  conn_newServiceFn :: "(bytes \<Rightarrow> error + sqladmin_service) option"

record cloudsqlExternal =
  kube :: kube_client
  db :: instances_service
  user :: users_service
  projectID :: string

text \<open>
  Modelled from the spec: the network's API types (\<^verbatim>\<open>GCPNetworkSpec\<close>, \<^verbatim>\<open>GCPNetworkStatus\<close>)
  are not among the source files.  The specification carries the declared name and the
  other declared fields; the status is the list of observed fields.
\<close>

record gcp_network_spec =
  spec_Name :: string
  spec_Fields :: "(string \<times> string) list"

record compute_network =
  cn_Name :: string
  cn_Fields :: "(string \<times> string) list"

record network_cr =
  net_ProviderReference :: "object_reference option"
  net_GCPNetworkSpec :: gcp_network_spec
  net_GCPNetworkStatus :: "(string \<times> string) list"

text \<open>
  \<^verbatim>\<open>resource.Managed\<close> is an interface: the two resource types of the controllers, and any
  other implementation.
\<close>

datatype managed =
    CloudsqlInstance cloudsql_instance
  | Network network_cr
  | OtherManaged string

datatype call =
    KubeGetProvider namespaced_name
  | KubeGetSecret namespaced_name
  | KubeUpdate cloudsql_instance
  | NewService bytes
  | InstancesGet string string
  | InstancesInsert string database_instance
  | InstancesPatch string string database_instance
  | InstancesDelete string string
  | UsersList string string
  | UsersUpdate string string string string sql_user
  | GeneratePassword nat
  | NewComputeService bytes
  | NetworksGet string string
  | NetworksInsert string compute_network
  | NetworksPatch string string compute_network
  | NetworksDelete string string

definition errNotCloudsql :: string where
  "errNotCloudsql = ''managed resource is not a CloudsqlInstance CR''"
definition errProviderNotRetrieved :: string where
  "errProviderNotRetrieved = ''provider could not be retrieved''"
definition errProviderSecretNotRetrieved :: string where
  "errProviderSecretNotRetrieved = ''secret referred in provider could not be retrieved''"
definition errManagedUpdateFailed :: string where
  "errManagedUpdateFailed = ''cannot update CloudsqlInstance CR''"
definition errConnectionNotRetrieved :: string where
  "errConnectionNotRetrieved = ''cannot get connection details''"
definition errNewClient :: string where
  "errNewClient = ''cannot create new Sqladmin Service''"
definition errInsertFailed :: string where
  "errInsertFailed = ''cannot insert new Cloudsql instance''"
definition errDeleteFailed :: string where
  "errDeleteFailed = ''cannot delete the Cloudsql instance''"
definition errPatchFailed :: string where
  "errPatchFailed = ''cannot patch the Cloudsql instance''"
definition errGetFailed :: string where
  "errGetFailed = ''cannot get the Cloudsql instance''"
definition errUpdateRootFailed :: string where
  "errUpdateRootFailed = ''cannot update root user credentials''"

subsection \<open>Connection details\<close>

text \<open>The loop of \<^verbatim>\<open>getConnectionDetails\<close> over the observed addresses, on the map \<open>m\<close>.\<close>

fun addresses_loop :: "ip_mapping list \<Rightarrow> connection_details \<Rightarrow> connection_details" where
  "addresses_loop [] m = m"
| "addresses_loop (ip # ips) m =
     (let m1 = (if IPType ip = PrivateIPType
                then m(PrivateIPKey \<mapsto> IPAddress ip,
                       ResourceCredentialsSecretEndpointKey \<mapsto> IPAddress ip)
                else m);
          m2 = (if IPType ip = PublicIPType
                then (let m' = m1(PublicIPKey \<mapsto> IPAddress ip)
                      in if length (at_key m' ResourceCredentialsSecretEndpointKey) = 0
                         then m'(ResourceCredentialsSecretEndpointKey \<mapsto> IPAddress ip)
                         else m')
                else m1)
      in addresses_loop ips m2)"

definition getConnectionDetails ::
  "lib \<Rightarrow> cloudsqlExternal \<Rightarrow> cloudsql_instance \<Rightarrow>
   (connection_details \<times> error option) \<times> call list" where
  "getConnectionDetails l c cr =
     (let m = [ResourceCredentialsSecretUserKey \<mapsto> lib_DatabaseUserName l cr];
          name = \<lparr>nn_Namespace = cr_Namespace cr,
                  nn_Name = cr_WriteConnectionSecretToReference cr\<rparr>;
          got = kube_Get_Secret (kube c) name;
          err = (case got of Inl e \<Rightarrow> Some e | Inr s \<Rightarrow> None);
          s = (case got of Inl e \<Rightarrow> empty_secret | Inr s \<Rightarrow> s)
      in if IgnoreNotFound err \<noteq> None then ((Map.empty, err), [KubeGetSecret name])
         else
           (let m0 = (if length (at_key (secret_Data s) ResourceCredentialsSecretPasswordKey) \<noteq> 0
                      then m(ResourceCredentialsSecretPasswordKey \<mapsto>
                               at_key (secret_Data s) ResourceCredentialsSecretPasswordKey)
                      else m)
            in ((addresses_loop (obs_IPAddresses (cr_AtProvider cr)) m0, None),
                [KubeGetSecret name])))"

subsection \<open>Credential rotation\<close>

text \<open>
  The last statements of \<^verbatim>\<open>updateRootCredentials\<close>: the password is set on the root user,
  the user is pushed to the provider, and the connection details are returned with the
  outcome of the push.
\<close>

definition pushRootUser ::
  "cloudsqlExternal \<Rightarrow> cloudsql_instance \<Rightarrow> sql_user \<Rightarrow> string \<Rightarrow> connection_details \<Rightarrow>
   call list \<Rightarrow> (connection_details \<times> error option) \<times> call list" where
  "pushRootUser c cr rootUser password conn calls =
     (let rootUser' = rootUser\<lparr>user_Password := password\<rparr>
      in ((conn,
           user_Update (user c) (projectID c) (cr_ExternalName cr)
             (user_Name rootUser') (user_Host rootUser') rootUser'),
          calls @ [UsersUpdate (projectID c) (cr_ExternalName cr)
                     (user_Name rootUser') (user_Host rootUser') rootUser']))"

definition updateRootCredentials ::
  "lib \<Rightarrow> cloudsqlExternal \<Rightarrow> cloudsql_instance \<Rightarrow>
   (connection_details \<times> error option) \<times> call list" where
  "updateRootCredentials l c cr =
     (let listed = [UsersList (projectID c) (cr_ExternalName cr)] in
      case user_List (user c) (projectID c) (cr_ExternalName cr) of
        Inl err \<Rightarrow> ((Map.empty, Some err), listed)
      | Inr users \<Rightarrow>
          (case find (\<lambda>val. user_Name val = lib_DatabaseUserName l cr) users of
             None \<Rightarrow>
               ((Map.empty,
                 Some (GoogleapiError StatusNotFound
                         (''user: '' @ lib_DatabaseUserName l cr @ '' is not found''))),
                listed)
           | Some rootUser \<Rightarrow>
               (case getConnectionDetails l c cr of
                  ((conn, Some err), got) \<Rightarrow> ((Map.empty, Some err), listed @ got)
                | ((conn, None), got) \<Rightarrow>
                    (let password = at_key conn ResourceCredentialsSecretPasswordKey in
                     if length password = 0
                     then (case lib_GeneratePassword l PasswordLength of
                             Inl err \<Rightarrow>
                               ((Map.empty, Some err),
                                listed @ got @ [GeneratePassword PasswordLength])
                           | Inr password' \<Rightarrow>
                               pushRootUser c cr rootUser password'
                                 (conn(ResourceCredentialsSecretPasswordKey \<mapsto> password'))
                                 (listed @ got @ [GeneratePassword PasswordLength]))
                     else pushRootUser c cr rootUser password conn (listed @ got)))))"

subsection \<open>The lifecycle operations\<close>

text \<open>
  Each operation returns its Go results, the managed record as the call leaves it (the
  operations mutate it through a pointer) and the calls made to the collaborators.
\<close>

definition IsBound :: "cloudsql_instance \<Rightarrow> bool" where
  "IsBound cr = (cr_BindingPhase cr = BindingPhaseBound)"

definition SetBindable :: "cloudsql_instance \<Rightarrow> cloudsql_instance" where
  "SetBindable cr = cr\<lparr>cr_BindingPhase := BindingPhaseUnbound\<rparr>"

text \<open>The \<^verbatim>\<open>switch\<close> of \<^verbatim>\<open>Observe\<close> on the observed lifecycle phase; it has no default case.\<close>

definition observe_state ::
  "lib \<Rightarrow> cloudsqlExternal \<Rightarrow> cloudsql_instance \<Rightarrow>
   (connection_details \<times> error option) \<times> cloudsql_instance \<times> call list" where
  "observe_state l c cr =
     (if obs_State (cr_AtProvider cr) = StateRunnable then
        (let cr1 = cr\<lparr>cr_Conditions := SetConditions (cr_Conditions cr) Available\<rparr>;
             cr2 = (if \<not> IsBound cr1 then SetBindable cr1 else cr1)
         in case getConnectionDetails l c cr2 of
              ((conn, Some err), got) \<Rightarrow>
                ((conn, Wrap (Some err) errConnectionNotRetrieved), cr2, got)
            | ((conn, None), got) \<Rightarrow> ((conn, None), cr2, got))
      else if obs_State (cr_AtProvider cr) = StateCreating then
        ((Map.empty, None),
         cr\<lparr>cr_Conditions := SetConditions (cr_Conditions cr) Creating\<rparr>, [])
      else if obs_State (cr_AtProvider cr) \<in>
                {StateCreationFailed, StateSuspended, StateMaintenance, StateUnknownState} then
        ((Map.empty, None),
         cr\<lparr>cr_Conditions := SetConditions (cr_Conditions cr) Unavailable\<rparr>, [])
      else ((Map.empty, None), cr, []))"

definition Observe ::
  "lib \<Rightarrow> cloudsqlExternal \<Rightarrow> managed \<Rightarrow>
   (ExternalObservation \<times> error option) \<times> managed \<times> call list" where
  "Observe l c mg =
     (case mg of
        CloudsqlInstance cr \<Rightarrow>
          (let fetched = [InstancesGet (projectID c) (cr_ExternalName cr)] in
           case db_Get (db c) (projectID c) (cr_ExternalName cr) of
             Inl err \<Rightarrow>
               ((ExternalObservation_zero,
                 Wrap (Ignore IsErrorNotFound (Some err)) errGetFailed), mg, fetched)
           | Inr instance \<Rightarrow>
               (let cr1 = cr\<lparr>cr_AtProvider := GenerateObservation instance\<rparr>;
                    currentSpec = cr_ForProvider cr1;
                    cr2 = cr1\<lparr>cr_ForProvider :=
                                 LateInitializeSpec (cr_ForProvider cr1) instance\<rparr>;
                    upToDate = (currentSpec = cr_ForProvider cr2);
                    written = (if \<not> upToDate then [KubeUpdate cr2] else [])
                in case (if \<not> upToDate then kube_Update (kube c) cr2 else None) of
                     Some err \<Rightarrow>
                       ((ExternalObservation_zero, Wrap (Some err) errManagedUpdateFailed),
                        CloudsqlInstance cr2, fetched @ written)
                   | None \<Rightarrow>
                       (case observe_state l c cr2 of
                          ((conn, Some err), cr3, got) \<Rightarrow>
                            ((ExternalObservation_zero, Some err),
                             CloudsqlInstance cr3, fetched @ written @ got)
                        | ((conn, None), cr3, got) \<Rightarrow>
                            ((\<lparr>ResourceExists = True, ResourceUpToDate = upToDate,
                               ConnectionDetails = conn\<rparr>, None),
                             CloudsqlInstance cr3, fetched @ written @ got))))
      | _ \<Rightarrow> ((ExternalObservation_zero, Some (ErrorNew errNotCloudsql)), mg, []))"

definition Create ::
  "cloudsqlExternal \<Rightarrow> managed \<Rightarrow> (connection_details \<times> error option) \<times> managed \<times> call list" where
  "Create c mg =
     (case mg of
        CloudsqlInstance cr \<Rightarrow>
          (let instance = GenerateDatabaseInstance (cr_ForProvider cr) (cr_ExternalName cr);
               err = db_Insert (db c) (projectID c) instance
           in ((Map.empty, Wrap (Ignore IsErrorAlreadyExists err) errInsertFailed), mg,
               [InstancesInsert (projectID c) instance]))
      | _ \<Rightarrow> ((Map.empty, Some (ErrorNew errNotCloudsql)), mg, []))"

definition Update ::
  "lib \<Rightarrow> cloudsqlExternal \<Rightarrow> managed \<Rightarrow>
   (connection_details \<times> error option) \<times> managed \<times> call list" where
  "Update l c mg =
     (case mg of
        CloudsqlInstance cr \<Rightarrow>
          (case updateRootCredentials l c cr of
             ((conn, Some err), calls) \<Rightarrow>
               ((Map.empty, Wrap (Some err) errUpdateRootFailed), mg, calls)
           | ((conn, None), calls) \<Rightarrow>
               (let instance = GenerateDatabaseInstance (cr_ForProvider cr) (cr_ExternalName cr);
                    err = db_Patch (db c) (projectID c) (cr_ExternalName cr) instance
                in ((conn, Wrap err errPatchFailed), mg,
                    calls @ [InstancesPatch (projectID c) (cr_ExternalName cr) instance])))
      | _ \<Rightarrow> ((Map.empty, Some (ErrorNew errNotCloudsql)), mg, []))"

definition Delete :: "cloudsqlExternal \<Rightarrow> managed \<Rightarrow> error option \<times> managed \<times> call list" where
  "Delete c mg =
     (case mg of
        CloudsqlInstance cr \<Rightarrow>
          (let err = db_Delete (db c) (projectID c) (cr_ExternalName cr)
           in (if IsErrorNotFound err then None else Wrap err errDeleteFailed, mg,
               [InstancesDelete (projectID c) (cr_ExternalName cr)]))
      | _ \<Rightarrow> (Some (ErrorNew errNotCloudsql), mg, []))"

text \<open>
  \<^verbatim>\<open>Connect\<close> also returns the connector, whose \<^verbatim>\<open>newServiceFn\<close> it sets when it is nil.  The
  result is \<open>None\<close> when the Go code panics on a nil provider reference.
\<close>

definition Connect ::
  "lib \<Rightarrow> cloudsqlConnector \<Rightarrow> managed \<Rightarrow>
   ((cloudsqlExternal option \<times> error option) \<times> managed \<times> cloudsqlConnector \<times> call list) option"
  where
  "Connect l c mg =
     (case mg of
        CloudsqlInstance cr \<Rightarrow>
          (case NamespacedNameOf (cr_ProviderReference cr) of
             None \<Rightarrow> None
           | Some n \<Rightarrow>
               (case kube_Get_Provider (conn_kube c) n of
                  Inl err \<Rightarrow>
                    Some ((None, Wrap (Some err) errProviderNotRetrieved), mg, c,
                          [KubeGetProvider n])
                | Inr provider \<Rightarrow>
                    (let name = \<lparr>nn_Namespace = provider_Namespace provider,
                                  nn_Name = provider_SecretName provider\<rparr>
                     in case kube_Get_Secret (conn_kube c) name of
                          Inl err \<Rightarrow>
                            Some ((None, Wrap (Some err) errProviderSecretNotRetrieved), mg, c,
                                  [KubeGetProvider n, KubeGetSecret name])
                        | Inr secret \<Rightarrow>
                            (let newServiceFn = (case conn_newServiceFn c of
                                                   None \<Rightarrow> lib_NewService l
                                                 | Some f \<Rightarrow> f);
                                 c' = c\<lparr>conn_newServiceFn := Some newServiceFn\<rparr>;
                                 credentials = at_key (secret_Data secret)
                                                 (provider_SecretKey provider);
                                 calls = [KubeGetProvider n, KubeGetSecret name,
                                          NewService credentials]
                             in case newServiceFn credentials of
                                  Inl err \<Rightarrow>
                                    Some ((None, Wrap (Some err) errNewClient), mg, c', calls)
                                | Inr s \<Rightarrow>
                                    Some ((Some \<lparr>kube = conn_kube c, db = svc_Instances s,
                                                  user = svc_Users s,
                                                  projectID = provider_ProjectID provider\<rparr>,
                                           None), mg, c', calls)))))
      | _ \<Rightarrow> Some ((None, Some (ErrorNew errNotCloudsql)), mg, c, []))"

section \<open>The network controller\<close>

definition errNewClient_compute :: string where
  "errNewClient_compute = ''cannot create new Compute Service''"
definition errNotNetwork :: string where
  "errNotNetwork = ''managed resource is not a Network resource''"
definition errNameNotGiven :: string where
  "errNameNotGiven = ''name for networkExternal resource is not provided''"

record networks_service =
  net_Get :: "string \<Rightarrow> string \<Rightarrow> error + compute_network"
  net_Insert :: "string \<Rightarrow> compute_network \<Rightarrow> error option"
  net_Patch :: "string \<Rightarrow> string \<Rightarrow> compute_network \<Rightarrow> error option"
  net_Delete :: "string \<Rightarrow> string \<Rightarrow> error option"

record networkConnector =
  nconn_client :: kube_client
  nconn_newClientFn :: "(bytes \<Rightarrow> error + networks_service) option"

record networkExternal =
  Networks :: networks_service
  net_projectID :: string

text \<open>
  Modelled from the spec: \<^verbatim>\<open>GenerateNetwork\<close> and \<^verbatim>\<open>GenerateGCPNetworkStatus\<close> of the API
  package and \<^verbatim>\<open>ProviderCredentials\<close> of the clients package are not among the source
  files.  "Translate record.spec into a provider-native creation payload"; "copy
  ObservedState into record.status"; "resolves the credential secret referenced by
  ProviderConfig; fails if absent".
\<close>

definition GenerateNetwork :: "gcp_network_spec \<Rightarrow> compute_network" where
  "GenerateNetwork spec = \<lparr>cn_Name = spec_Name spec, cn_Fields = spec_Fields spec\<rparr>"

definition GenerateGCPNetworkStatus :: "compute_network \<Rightarrow> (string \<times> string) list" where
  "GenerateGCPNetworkStatus observed = cn_Fields observed"

definition ProviderCredentials ::
  "kube_client \<Rightarrow> provider \<Rightarrow> (bytes \<times> error option) \<times> call list" where
  "ProviderCredentials client p =
     (let name = \<lparr>nn_Namespace = provider_Namespace p, nn_Name = provider_SecretName p\<rparr>
      in case kube_Get_Secret client name of
           Inl err \<Rightarrow> (([], Some err), [KubeGetSecret name])
         | Inr s \<Rightarrow>
             ((at_key (secret_Data s) (provider_SecretKey p), None), [KubeGetSecret name]))"

text \<open>The first argument of \<^verbatim>\<open>network_Connect\<close> is \<^verbatim>\<open>googlecompute.NewService\<close>.\<close>

definition network_Connect ::
  "(bytes \<Rightarrow> error + networks_service) \<Rightarrow> networkConnector \<Rightarrow> managed \<Rightarrow>
   ((networkExternal option \<times> error option) \<times> managed \<times> networkConnector \<times> call list) option"
  where
  "network_Connect NewService_compute c mg =
     (case mg of
        Network cr \<Rightarrow>
          (if spec_Name (net_GCPNetworkSpec cr) = []
           then Some ((None, Some (ErrorNew errNameNotGiven)), mg, c, [])
           else
             (case NamespacedNameOf (net_ProviderReference cr) of
                None \<Rightarrow> None
              | Some n \<Rightarrow>
                  (case kube_Get_Provider (nconn_client c) n of
                     Inl err \<Rightarrow>
                       Some ((None, Wrap (Some err) (''cannot get provider '' @ nn_String n)),
                             mg, c, [KubeGetProvider n])
                   | Inr provider \<Rightarrow>
                       (case ProviderCredentials (nconn_client c) provider of
                          ((gcpCreds, Some err), got) \<Rightarrow>
                            Some ((None, Some err), mg, c, KubeGetProvider n # got)
                        | ((gcpCreds, None), got) \<Rightarrow>
                            (let newClientFn = (case nconn_newClientFn c of
                                                  None \<Rightarrow> NewService_compute
                                                | Some f \<Rightarrow> f);
                                 c' = c\<lparr>nconn_newClientFn := Some newClientFn\<rparr>;
                                 calls = KubeGetProvider n # got @ [NewComputeService gcpCreds]
                             in case newClientFn gcpCreds of
                                  Inl err \<Rightarrow>
                                    Some ((None, Wrap (Some err) errNewClient_compute),
                                          mg, c', calls)
                                | Inr s \<Rightarrow>
                                    Some ((Some \<lparr>Networks = s,
                                                  net_projectID = provider_ProjectID provider\<rparr>,
                                           None), mg, c', calls))))))
      | _ \<Rightarrow> Some ((None, Some (ErrorNew errNotNetwork)), mg, c, []))"

definition network_Observe ::
  "networkExternal \<Rightarrow> managed \<Rightarrow> (ExternalObservation \<times> error option) \<times> managed \<times> call list"
  where
  "network_Observe c mg =
     (case mg of
        Network cr \<Rightarrow>
          (let fetched = [NetworksGet (net_projectID c) (spec_Name (net_GCPNetworkSpec cr))];
               got = net_Get (Networks c) (net_projectID c) (spec_Name (net_GCPNetworkSpec cr));
               err = (case got of Inl e \<Rightarrow> Some e | Inr observed \<Rightarrow> None)
           in if IsErrorNotFound err
              then ((ExternalObservation_zero\<lparr>ResourceExists := False\<rparr>, None), mg, fetched)
              else
                (case got of
                   Inl e \<Rightarrow> ((ExternalObservation_zero, Some e), mg, fetched)
                 | Inr observed \<Rightarrow>
                     ((ExternalObservation_zero\<lparr>ResourceExists := True\<rparr>, None),
                      Network (cr\<lparr>net_GCPNetworkStatus := GenerateGCPNetworkStatus observed\<rparr>),
                      fetched)))
      | _ \<Rightarrow> ((ExternalObservation_zero, Some (ErrorNew errNotNetwork)), mg, []))"

definition network_Create ::
  "networkExternal \<Rightarrow> managed \<Rightarrow> (connection_details \<times> error option) \<times> managed \<times> call list"
  where
  "network_Create c mg =
     (case mg of
        Network cr \<Rightarrow>
          (let payload = GenerateNetwork (net_GCPNetworkSpec cr);
               calls = [NetworksInsert (net_projectID c) payload]
           in case net_Insert (Networks c) (net_projectID c) payload of
                Some err \<Rightarrow> ((Map.empty, Some err), mg, calls)
              | None \<Rightarrow> ((Map.empty, None), mg, calls))
      | _ \<Rightarrow> ((Map.empty, Some (ErrorNew errNotNetwork)), mg, []))"

definition network_Update ::
  "networkExternal \<Rightarrow> managed \<Rightarrow> (connection_details \<times> error option) \<times> managed \<times> call list"
  where
  "network_Update c mg =
     (case mg of
        Network cr \<Rightarrow>
          (let payload = GenerateNetwork (net_GCPNetworkSpec cr);
               calls = [NetworksPatch (net_projectID c) (spec_Name (net_GCPNetworkSpec cr))
                          payload]
           in case net_Patch (Networks c) (net_projectID c)
                     (spec_Name (net_GCPNetworkSpec cr)) payload of
                Some err \<Rightarrow> ((Map.empty, Some err), mg, calls)
              | None \<Rightarrow> ((Map.empty, None), mg, calls))
      | _ \<Rightarrow> ((Map.empty, Some (ErrorNew errNotNetwork)), mg, []))"

definition network_Delete ::
  "networkExternal \<Rightarrow> managed \<Rightarrow> error option \<times> managed \<times> call list" where
  "network_Delete c mg =
     (case mg of
        Network cr \<Rightarrow>
          (let err = net_Delete (Networks c) (net_projectID c)
                       (spec_Name (net_GCPNetworkSpec cr));
               calls = [NetworksDelete (net_projectID c) (spec_Name (net_GCPNetworkSpec cr))]
           in if \<not> IsErrorNotFound err \<and> err \<noteq> None then (err, mg, calls)
              else (None, mg, calls))
      | _ \<Rightarrow> (Some (ErrorNew errNotNetwork), mg, []))"

section \<open>Example records and collaborators\<close>

definition ex_cr :: cloudsql_instance where
  "ex_cr = \<lparr>cr_Namespace = ''default'', cr_ExternalName = ''db1'',
     cr_ProviderReference = Some \<lparr>ref_Namespace = ''default'', ref_Name = ''gcp''\<rparr>,
     cr_WriteConnectionSecretToReference = ''db1-conn'',
     cr_ForProvider = [(''region'', ''us-west2'')],
     cr_AtProvider = \<lparr>obs_State = [], obs_IPAddresses = []\<rparr>,
     cr_Conditions = [], cr_BindingPhase = BindingPhaseUnset\<rparr>"

definition ex_kube :: "(error + secret) \<Rightarrow> error option \<Rightarrow> kube_client" where
  "ex_kube got updated =
     \<lparr>kube_Get_Provider = (\<lambda>n. Inl (StatusError ''NotFound'' ''no provider'')),
      kube_Get_Secret = (\<lambda>n. got), kube_Update = (\<lambda>cr. updated)\<rparr>"

definition ex_db :: "(error + database_instance) \<Rightarrow> error option \<Rightarrow> instances_service" where
  "ex_db got done =
     \<lparr>db_Get = (\<lambda>p n. got), db_Insert = (\<lambda>p i. done), db_Patch = (\<lambda>p n i. done),
      db_Delete = (\<lambda>p n. done)\<rparr>"

definition ex_users :: "(error + sql_user list) \<Rightarrow> error option \<Rightarrow> users_service" where
  "ex_users listed updated =
     \<lparr>user_List = (\<lambda>p n. listed), user_Update = (\<lambda>p i n h u. updated)\<rparr>"

definition ex_net :: network_cr where
  "ex_net = \<lparr>net_ProviderReference = Some \<lparr>ref_Namespace = ''default'', ref_Name = ''gcp''\<rparr>,
     net_GCPNetworkSpec = \<lparr>spec_Name = ''net1'', spec_Fields = [(''routingMode'', ''REGIONAL'')]\<rparr>,
     net_GCPNetworkStatus = []\<rparr>"

definition ex_networks :: "(error + compute_network) \<Rightarrow> error option \<Rightarrow> networkExternal" where
  "ex_networks got done =
     \<lparr>Networks = \<lparr>net_Get = (\<lambda>p n. got), net_Insert = (\<lambda>p i. done),
                   net_Patch = (\<lambda>p n i. done), net_Delete = (\<lambda>p n. done)\<rparr>,
      net_projectID = ''project''\<rparr>"

definition ex_database :: "instances_service \<Rightarrow> cloudsqlExternal" where
  "ex_database d =
     \<lparr>kube = ex_kube (Inl (StatusError ''NotFound'' ''no secret'')) None, db = d,
      user = ex_users (Inr []) None, projectID = ''project''\<rparr>"

definition ex_gone :: error where
  "ex_gone = GoogleapiError 404 ''notFound''"

definition ex_failure :: error where
  "ex_failure = GoogleapiError 500 ''backendError''"

definition ex_conflict :: error where
  "ex_conflict = GoogleapiError 409 ''alreadyExists''"

definition ex_lib :: lib where
  "ex_lib = \<lparr>lib_GeneratePassword = (\<lambda>n. Inr (replicate n CHR ''x'')),
     lib_DatabaseUserName = (\<lambda>cr. ''root''),
     lib_NewService = (\<lambda>credentials. Inl (OtherError ''no credentials''))\<rparr>"

definition ex_connector :: cloudsqlConnector where
  "ex_connector = \<lparr>conn_kube = ex_kube (Inl (StatusError ''NotFound'' ''no secret'')) None,
     conn_newServiceFn = None\<rparr>"

definition ex_nconnector :: networkConnector where
  "ex_nconnector = \<lparr>nconn_client = ex_kube (Inl (StatusError ''NotFound'' ''no secret'')) None,
     nconn_newClientFn = None\<rparr>"

definition ex_root :: sql_user where
  "ex_root = \<lparr>user_Name = ''root'', user_Host = ''%'', user_Password = []\<rparr>"

definition ex_secret :: secret where
  "ex_secret = \<lparr>secret_Data = [''password'' \<mapsto> ''secretpw'']\<rparr>"

definition ex_rotating :: "(error + secret) \<Rightarrow> (error + sql_user list) \<Rightarrow> cloudsqlExternal" where
  "ex_rotating got listed =
     \<lparr>kube = ex_kube got None, db = ex_db (Inl ex_gone) None,
      user = ex_users listed None, projectID = ''project''\<rparr>"

text \<open>Whether an error is the wrapper that \<^verbatim>\<open>errors.Wrap\<close> makes.\<close>

fun is_wrapped :: "error option \<Rightarrow> bool" where
  "is_wrapped (Some (WithMessage err msg)) = True"
| "is_wrapped err = False"

definition ex_addressed :: "ip_mapping list \<Rightarrow> cloudsql_instance" where
  "ex_addressed ips = ex_cr\<lparr>cr_AtProvider := \<lparr>obs_State = StateRunnable, obs_IPAddresses = ips\<rparr>\<rparr>"

definition ex_private :: "string \<Rightarrow> ip_mapping" where
  "ex_private a = \<lparr>IPAddress = a, IPType = PrivateIPType\<rparr>"

definition ex_public :: "string \<Rightarrow> ip_mapping" where
  "ex_public a = \<lparr>IPAddress = a, IPType = PublicIPType\<rparr>"

definition ex_outgoing :: "string \<Rightarrow> ip_mapping" where
  "ex_outgoing a = \<lparr>IPAddress = a, IPType = ''OUTGOING''\<rparr>"

definition ex_instance :: "string \<Rightarrow> (string \<times> string) list \<Rightarrow> database_instance" where
  "ex_instance state declared =
     \<lparr>inst_Name = ''db1'', inst_State = state,
      inst_IpAddresses = [ex_public ''1.2.3.4''], inst_Fields = declared\<rparr>"

definition ex_observing :: "database_instance \<Rightarrow> error option \<Rightarrow> cloudsqlExternal" where
  "ex_observing instance updated =
     \<lparr>kube = ex_kube (Inr ex_secret) updated, db = ex_db (Inr instance) None,
      user = ex_users (Inr [ex_root]) None, projectID = ''project''\<rparr>"

definition ex_observed :: compute_network where
  "ex_observed = \<lparr>cn_Name = ''net1'', cn_Fields = [(''routingMode'', ''REGIONAL'')]\<rparr>"

section \<open>Facts about the helpers\<close>

lemmas key_defs = PrivateIPKey_def PublicIPKey_def ResourceCredentialsSecretUserKey_def
  ResourceCredentialsSecretPasswordKey_def ResourceCredentialsSecretEndpointKey_def

lemma getConnectionDetails_calls:
  "snd (getConnectionDetails l c cr)
     = [KubeGetSecret \<lparr>nn_Namespace = cr_Namespace cr,
                       nn_Name = cr_WriteConnectionSecretToReference cr\<rparr>]"
  by (simp add: getConnectionDetails_def Let_def)

lemma getConnectionDetails_results:
  "snd (fst (getConnectionDetails l c cr)) = None \<Longrightarrow>
   getConnectionDetails l c cr
     = ((fst (fst (getConnectionDetails l c cr)), None), snd (getConnectionDetails l c cr))"
  by (metis prod.collapse)

lemma addresses_loop_password:
  "addresses_loop ips m ResourceCredentialsSecretPasswordKey
     = m ResourceCredentialsSecretPasswordKey"
  by (induction ips arbitrary: m) (simp_all add: Let_def key_defs)

lemma getConnectionDetails_password:
  assumes "getConnectionDetails l c cr = ((conn, None), got)"
  shows "at_key conn ResourceCredentialsSecretPasswordKey
     = at_key (secret_Data (case kube_Get_Secret (kube c)
          \<lparr>nn_Namespace = cr_Namespace cr, nn_Name = cr_WriteConnectionSecretToReference cr\<rparr>
        of Inl e \<Rightarrow> empty_secret | Inr s \<Rightarrow> s)) ResourceCredentialsSecretPasswordKey"
proof -
  have distinct: "ResourceCredentialsSecretPasswordKey \<noteq> ResourceCredentialsSecretUserKey"
    by (simp add: key_defs)
  from assms show ?thesis
    by (auto simp add: getConnectionDetails_def Let_def at_key_def addresses_loop_password
        IgnoreNotFound_def Ignore_def distinct split: if_splits option.splits)
qed

lemma getConnectionDetails_read:
  assumes "kube_Get_Secret (kube c)
      \<lparr>nn_Namespace = cr_Namespace cr, nn_Name = cr_WriteConnectionSecretToReference cr\<rparr> = Inr s
    \<or> kube_Get_Secret (kube c)
      \<lparr>nn_Namespace = cr_Namespace cr, nn_Name = cr_WriteConnectionSecretToReference cr\<rparr> = Inl e
      \<and> IsNotFound (Some e)"
  shows "\<exists>conn. getConnectionDetails l c cr = ((conn, None),
     [KubeGetSecret \<lparr>nn_Namespace = cr_Namespace cr,
                      nn_Name = cr_WriteConnectionSecretToReference cr\<rparr>])"
  using assms
  by (auto simp add: getConnectionDetails_def Let_def IgnoreNotFound_def Ignore_def)

lemma addresses_loop_filter:
  "addresses_loop ips m
     = addresses_loop (filter (\<lambda>ip. IPType ip = PrivateIPType \<or> IPType ip = PublicIPType) ips) m"
  by (induction ips arbitrary: m) (simp_all add: Let_def)

lemma type_distinct: "PrivateIPType \<noteq> PublicIPType"
  by (simp add: PrivateIPType_def PublicIPType_def)

lemma endpoint_distinct:
  "ResourceCredentialsSecretEndpointKey \<noteq> PrivateIPKey"
  "ResourceCredentialsSecretEndpointKey \<noteq> PublicIPKey"
  "ResourceCredentialsSecretEndpointKey \<noteq> ResourceCredentialsSecretUserKey"
  "ResourceCredentialsSecretEndpointKey \<noteq> ResourceCredentialsSecretPasswordKey"
  "PrivateIPKey \<noteq> PublicIPKey"
  "PrivateIPKey \<noteq> ResourceCredentialsSecretUserKey"
  "PrivateIPKey \<noteq> ResourceCredentialsSecretPasswordKey"
  by (simp_all add: key_defs)

lemma getConnectionDetails_addresses:
  assumes "getConnectionDetails l c cr = ((conn, None), got)"
  shows "\<exists>m. conn = addresses_loop (obs_IPAddresses (cr_AtProvider cr)) m \<and>
     m ResourceCredentialsSecretEndpointKey = None \<and> m PrivateIPKey = None"
  using assms endpoint_distinct
  by (auto simp add: getConnectionDetails_def Let_def IgnoreNotFound_def Ignore_def
      split: if_splits)

lemma updateRootCredentials_no_patch:
  "InstancesPatch p n i \<notin> set (snd (updateRootCredentials l c cr))"
proof -
  obtain conn err got where g: "getConnectionDetails l c cr = ((conn, err), got)"
    by (metis surj_pair)
  with getConnectionDetails_calls [of l c cr]
  have got: "got = [KubeGetSecret \<lparr>nn_Namespace = cr_Namespace cr,
                       nn_Name = cr_WriteConnectionSecretToReference cr\<rparr>]"
    by simp
  show ?thesis
    by (simp add: updateRootCredentials_def pushRootUser_def Let_def g got
        split: sum.split option.split)
qed

lemma SetConditions_member: "new \<in> set (SetConditions cs new)"
  by (auto simp add: SetConditions_def list_ex_iff image_iff)

lemma state_distinct:
  "StateCreating \<noteq> StateRunnable" "StateCreationFailed \<noteq> StateRunnable"
  "StateSuspended \<noteq> StateRunnable" "StateMaintenance \<noteq> StateRunnable"
  "StateUnknownState \<noteq> StateRunnable" "StateCreationFailed \<noteq> StateCreating"
  "StateSuspended \<noteq> StateCreating" "StateMaintenance \<noteq> StateCreating"
  "StateUnknownState \<noteq> StateCreating"
  by (simp_all add: StateRunnable_def StateCreating_def StateCreationFailed_def
      StateSuspended_def StateMaintenance_def StateUnknownState_def)

lemma observe_state_record:
  "cr_ForProvider (fst (snd (observe_state l c cr))) = cr_ForProvider cr \<and>
   cr_AtProvider (fst (snd (observe_state l c cr))) = cr_AtProvider cr \<and>
   cr_Conditions (fst (snd (observe_state l c cr)))
     = (if obs_State (cr_AtProvider cr) = StateRunnable
        then SetConditions (cr_Conditions cr) Available
        else if obs_State (cr_AtProvider cr) = StateCreating
        then SetConditions (cr_Conditions cr) Creating
        else if obs_State (cr_AtProvider cr)
                  \<in> {StateCreationFailed, StateSuspended, StateMaintenance, StateUnknownState}
        then SetConditions (cr_Conditions cr) Unavailable
        else cr_Conditions cr)"
  by (simp add: observe_state_def Let_def SetBindable_def split: prod.split option.split)

lemma getConnectionDetails_callsD:
  "getConnectionDetails l c cr = (r, got) \<Longrightarrow>
   got = [KubeGetSecret \<lparr>nn_Namespace = cr_Namespace cr,
                          nn_Name = cr_WriteConnectionSecretToReference cr\<rparr>]"
  using getConnectionDetails_calls [of l c cr] by simp

lemma observe_state_attempt:
  "snd (snd (observe_state l c cr))
     = (if obs_State (cr_AtProvider cr) = StateRunnable
        then [KubeGetSecret \<lparr>nn_Namespace = cr_Namespace cr,
                             nn_Name = cr_WriteConnectionSecretToReference cr\<rparr>]
        else [])"
proof (cases "obs_State (cr_AtProvider cr) = StateRunnable")
  case True
  then show ?thesis
    by (auto simp add: observe_state_def Let_def SetBindable_def
        split: prod.split option.split dest!: getConnectionDetails_callsD)
next
  case False
  then show ?thesis
    by (simp add: observe_state_def)
qed

lemma observe_state_idle:
  "obs_State (cr_AtProvider cr) \<noteq> StateRunnable \<Longrightarrow>
   fst (observe_state l c cr) = (Map.empty, None)"
  by (simp add: observe_state_def)

text \<open>What \<open>Observe\<close> does once the instance is fetched and the write-back has not failed.\<close>

lemma Observe_found:
  assumes fetched: "db_Get (db c) (projectID c) (cr_ExternalName cr) = Inr instance"
    and cr2: "cr2 = cr\<lparr>cr_AtProvider := GenerateObservation instance,
                        cr_ForProvider := LateInitializeSpec (cr_ForProvider cr) instance\<rparr>"
    and persisted: "LateInitializeSpec (cr_ForProvider cr) instance = cr_ForProvider cr \<or>
                    kube_Update (kube c) cr2 = None"
  shows "fst (snd (Observe l c (CloudsqlInstance cr)))
           = CloudsqlInstance (fst (snd (observe_state l c cr2)))"
    and "snd (snd (Observe l c (CloudsqlInstance cr)))
           = InstancesGet (projectID c) (cr_ExternalName cr)
             # (if LateInitializeSpec (cr_ForProvider cr) instance = cr_ForProvider cr
                then [] else [KubeUpdate cr2])
             @ snd (snd (observe_state l c cr2))"
    and "snd (fst (Observe l c (CloudsqlInstance cr))) = snd (fst (observe_state l c cr2))"
    and "snd (fst (observe_state l c cr2)) = None \<Longrightarrow>
         fst (fst (Observe l c (CloudsqlInstance cr)))
           = \<lparr>ResourceExists = True,
              ResourceUpToDate =
                (LateInitializeSpec (cr_ForProvider cr) instance = cr_ForProvider cr),
              ConnectionDetails = fst (fst (observe_state l c cr2))\<rparr>"
  using fetched persisted
  by (auto simp add: Observe_def Let_def cr2 split: prod.split option.split)

lemma Observe_results:
  "Observe l c mg = ((fst (fst (Observe l c mg)), snd (fst (Observe l c mg))),
     fst (snd (Observe l c mg)), snd (snd (Observe l c mg)))"
  by simp

lemma Observe_write_failed:
  assumes fetched: "db_Get (db c) (projectID c) (cr_ExternalName cr) = Inr instance"
    and cr2: "cr2 = cr\<lparr>cr_AtProvider := GenerateObservation instance,
                        cr_ForProvider := LateInitializeSpec (cr_ForProvider cr) instance\<rparr>"
    and changed: "LateInitializeSpec (cr_ForProvider cr) instance \<noteq> cr_ForProvider cr"
    and failed: "kube_Update (kube c) cr2 = Some e"
  shows "Observe l c (CloudsqlInstance cr)
     = ((ExternalObservation_zero, Some (WithMessage e errManagedUpdateFailed)),
        CloudsqlInstance cr2,
        [InstancesGet (projectID c) (cr_ExternalName cr), KubeUpdate cr2])"
  using fetched changed failed unfolding cr2
  by (simp add: Observe_def Let_def)

lemma observe_state_no_update: "KubeUpdate x \<notin> set (snd (snd (observe_state l c cr)))"
  by (simp add: observe_state_attempt)

lemma network_Observe_passive:
  assumes "network_Observe nc (Network n) = ((nobs, nerr), nmg', ncalls)"
  shows "\<not> ResourceUpToDate nobs \<and> (\<forall>x. KubeUpdate x \<notin> set ncalls) \<and>
     (\<exists>n'. nmg' = Network n' \<and> net_GCPNetworkSpec n' = net_GCPNetworkSpec n)"
  using assms
  by (auto simp add: network_Observe_def Let_def ExternalObservation_zero_def
      split: if_splits sum.splits)

lemma network_Observe_results:
  "network_Observe c mg = ((fst (fst (network_Observe c mg)), snd (fst (network_Observe c mg))),
     fst (snd (network_Observe c mg)), snd (snd (network_Observe c mg)))"
  by simp

lemma map_of_filter_unset:
  "map_of (filter (\<lambda>(field, v). P field) xs) k = (if P k then map_of xs k else None)"
  by (induction xs) auto

lemma Observe_leaves_late_initialized:
  assumes fetched: "db_Get (db c) (projectID c) (cr_ExternalName cr) = Inr instance"
  shows "\<exists>cr'. fst (snd (Observe l c (CloudsqlInstance cr))) = CloudsqlInstance cr' \<and>
     cr_ForProvider cr' = LateInitializeSpec (cr_ForProvider cr) instance"
proof -
  define cr2 where "cr2 = cr\<lparr>cr_AtProvider := GenerateObservation instance,
      cr_ForProvider := LateInitializeSpec (cr_ForProvider cr) instance\<rparr>"
  have spec: "cr_ForProvider cr2 = LateInitializeSpec (cr_ForProvider cr) instance"
    by (simp add: cr2_def)
  show ?thesis
  proof (cases "LateInitializeSpec (cr_ForProvider cr) instance = cr_ForProvider cr \<or>
      kube_Update (kube c) cr2 = None")
    case True
    from Observe_found(1) [OF fetched cr2_def True, of l] observe_state_record [of l c cr2] spec
    show ?thesis by simp
  next
    case False
    then obtain e where "kube_Update (kube c) cr2 = Some e" by auto
    with False Observe_write_failed [OF fetched cr2_def, of e l] spec
    show ?thesis by simp
  qed
qed
section \<open>Observe: late initialization and the up-to-date flag\<close>

text \<open>
  Claim C1, as amended.  For every Observe call of the database controller that fetches
  the instance: when it returns no error, the resource is reported as existing and the
  upToDate flag is true if and only if late initialization left the spec unchanged;
  whenever the spec did change, the first call after the fetch is the write of the
  updated record to the Kubernetes client, and a failure of that write is returned
  wrapped with \<^verbatim>\<open>errManagedUpdateFailed\<close>; when the spec did not change nothing is written;
  and the record the call leaves carries the late-initialised spec.  The network
  controller's Observe has no late-initialization pass: it never writes the record, never
  changes the spec, and its upToDate flag is always false.
\<close>

theorem upToDate_tracks_late_initialization:
  assumes fetched: "db_Get (db c) (projectID c) (cr_ExternalName cr) = Inr instance"
    and result: "Observe l c (CloudsqlInstance cr) = ((obs, err), mg', calls)"
    and late: "cr2 = cr\<lparr>cr_AtProvider := GenerateObservation instance,
                         cr_ForProvider := LateInitializeSpec (cr_ForProvider cr) instance\<rparr>"
    and nresult: "network_Observe nc (Network n) = ((nobs, nerr), nmg', ncalls)"
  shows
    "(err = None \<longrightarrow>
        ResourceExists obs \<and> (ResourceUpToDate obs \<longleftrightarrow> cr_ForProvider cr2 = cr_ForProvider cr)) \<and>
     (cr_ForProvider cr2 \<noteq> cr_ForProvider cr \<longrightarrow>
        (\<exists>rest. calls = InstancesGet (projectID c) (cr_ExternalName cr) # KubeUpdate cr2 # rest) \<and>
        (\<forall>e. kube_Update (kube c) cr2 = Some e \<longrightarrow>
           err = Some (WithMessage e errManagedUpdateFailed))) \<and>
     (cr_ForProvider cr2 = cr_ForProvider cr \<longrightarrow> (\<forall>x. KubeUpdate x \<notin> set calls)) \<and>
     (\<exists>cr'. mg' = CloudsqlInstance cr' \<and> cr_ForProvider cr' = cr_ForProvider cr2) \<and>
     \<not> ResourceUpToDate nobs \<and> (\<forall>x. KubeUpdate x \<notin> set ncalls) \<and>
     (\<exists>n'. nmg' = Network n' \<and> net_GCPNetworkSpec n' = net_GCPNetworkSpec n)"
proof -
  have spec: "cr_ForProvider cr2 = LateInitializeSpec (cr_ForProvider cr) instance"
    by (simp add: late)
  have database:
    "(err = None \<longrightarrow>
        ResourceExists obs \<and> (ResourceUpToDate obs \<longleftrightarrow> cr_ForProvider cr2 = cr_ForProvider cr)) \<and>
     (cr_ForProvider cr2 \<noteq> cr_ForProvider cr \<longrightarrow>
        (\<exists>rest. calls = InstancesGet (projectID c) (cr_ExternalName cr) # KubeUpdate cr2 # rest) \<and>
        (\<forall>e. kube_Update (kube c) cr2 = Some e \<longrightarrow>
           err = Some (WithMessage e errManagedUpdateFailed))) \<and>
     (cr_ForProvider cr2 = cr_ForProvider cr \<longrightarrow> (\<forall>x. KubeUpdate x \<notin> set calls)) \<and>
     (\<exists>cr'. mg' = CloudsqlInstance cr' \<and> cr_ForProvider cr' = cr_ForProvider cr2)"
  proof (cases "cr_ForProvider cr2 \<noteq> cr_ForProvider cr \<and> kube_Update (kube c) cr2 \<noteq> None")
    case True
    then obtain e where e: "kube_Update (kube c) cr2 = Some e" by blast
    from True spec have changed: "LateInitializeSpec (cr_ForProvider cr) instance \<noteq> cr_ForProvider cr"
      by simp
    from Observe_write_failed [OF fetched late changed e, of l] result True e
    show ?thesis by auto
  next
    case False
    with spec have persisted: "LateInitializeSpec (cr_ForProvider cr) instance = cr_ForProvider cr \<or>
        kube_Update (kube c) cr2 = None"
      by auto
    note found = Observe_found [OF fetched late persisted, of l]
    from found(1) result observe_state_record [of l c cr2]
    have kept: "\<exists>cr'. mg' = CloudsqlInstance cr' \<and> cr_ForProvider cr' = cr_ForProvider cr2"
      by simp
    from found(2) result
    have calls: "calls = InstancesGet (projectID c) (cr_ExternalName cr)
             # (if cr_ForProvider cr2 = cr_ForProvider cr then [] else [KubeUpdate cr2])
             @ snd (snd (observe_state l c cr2))"
      by (simp add: spec)
    have flag: "ResourceExists obs \<and> (ResourceUpToDate obs \<longleftrightarrow> cr_ForProvider cr2 = cr_ForProvider cr)"
      if "err = None"
    proof -
      from that found(3) result have "snd (fst (observe_state l c cr2)) = None" by simp
      from found(4) [OF this] result show ?thesis by (simp add: spec)
    qed
    from kept calls flag False observe_state_no_update [of _ l c cr2]
    show ?thesis by auto
  qed
  with network_Observe_passive [OF nresult] show ?thesis by simp
qed

theorem upToDate_tracks_late_initialization_witness:
  "snd (fst (Observe ex_lib
      (ex_observing (ex_instance StateSuspended [(''region'', ''us-west2'')]) None)
      (CloudsqlInstance ex_cr))) = None \<and>
   ResourceUpToDate (fst (fst (Observe ex_lib
      (ex_observing (ex_instance StateSuspended [(''region'', ''us-west2'')]) None)
      (CloudsqlInstance ex_cr)))) \<and>
   (\<forall>x. KubeUpdate x \<notin> set (snd (snd (Observe ex_lib
      (ex_observing (ex_instance StateSuspended [(''region'', ''us-west2'')]) None)
      (CloudsqlInstance ex_cr))))) \<and>
   snd (fst (Observe ex_lib
      (ex_observing (ex_instance StateCreating [(''tier'', ''db-f1-micro'')]) None)
      (CloudsqlInstance ex_cr))) = None \<and>
   \<not> ResourceUpToDate (fst (fst (Observe ex_lib
      (ex_observing (ex_instance StateCreating [(''tier'', ''db-f1-micro'')]) None)
      (CloudsqlInstance ex_cr)))) \<and>
   (\<exists>rest. snd (snd (Observe ex_lib
      (ex_observing (ex_instance StateCreating [(''tier'', ''db-f1-micro'')]) None)
      (CloudsqlInstance ex_cr)))
      = InstancesGet ''project'' ''db1''
        # KubeUpdate (ex_cr\<lparr>cr_AtProvider := \<lparr>obs_State = StateCreating,
                                                obs_IPAddresses = [ex_public ''1.2.3.4'']\<rparr>,
                            cr_ForProvider := [(''region'', ''us-west2''),
                                               (''tier'', ''db-f1-micro'')]\<rparr>)
        # rest) \<and>
   \<not> ResourceUpToDate (fst (fst (network_Observe (ex_networks (Inr ex_observed) None)
      (Network ex_net))))"
proof -
  let ?same = "ex_instance StateSuspended [(''region'', ''us-west2'')]"
  let ?more = "ex_instance StateCreating [(''tier'', ''db-f1-micro'')]"
  have fetched: "db_Get (db (ex_observing i None)) (projectID (ex_observing i None))
      (cr_ExternalName ex_cr) = Inr i" for i
    by (simp add: ex_observing_def ex_db_def)
  have persisted: "LateInitializeSpec (cr_ForProvider ex_cr) i = cr_ForProvider ex_cr \<or>
      kube_Update (kube (ex_observing i None))
        (ex_cr\<lparr>cr_AtProvider := GenerateObservation i,
            cr_ForProvider := LateInitializeSpec (cr_ForProvider ex_cr) i\<rparr>) = None" for i
    by (simp add: ex_observing_def ex_kube_def)
  have quiet: "snd (fst (Observe ex_lib (ex_observing i None) (CloudsqlInstance ex_cr))) = None"
    if "inst_State i \<noteq> StateRunnable" for i
    using Observe_found(3) [OF fetched refl persisted, of ex_lib i] that
    by (simp add: observe_state_idle GenerateObservation_def)
  have states: "inst_State ?same \<noteq> StateRunnable" "inst_State ?more \<noteq> StateRunnable"
    using state_distinct by (simp_all add: ex_instance_def)
  have same: "LateInitializeSpec (cr_ForProvider ex_cr) ?same = cr_ForProvider ex_cr"
    by (simp add: LateInitializeSpec_def ex_cr_def ex_instance_def)
  have more: "LateInitializeSpec (cr_ForProvider ex_cr) ?more
      = [(''region'', ''us-west2''), (''tier'', ''db-f1-micro'')]"
    by (simp add: LateInitializeSpec_def ex_cr_def ex_instance_def)
  have changed: "[(''region'', ''us-west2''), (''tier'', ''db-f1-micro'')] \<noteq> cr_ForProvider ex_cr"
    by (simp add: ex_cr_def)
  have names: "cr_ExternalName ex_cr = ''db1''" "projectID (ex_observing i None) = ''project''" for i
    by (simp_all add: ex_cr_def ex_observing_def)
  have observed: "GenerateObservation ?more
      = \<lparr>obs_State = StateCreating, obs_IPAddresses = [ex_public ''1.2.3.4'']\<rparr>"
    by (simp add: GenerateObservation_def ex_instance_def)
  from upToDate_tracks_late_initialization [OF fetched Observe_results refl
      network_Observe_results, of ex_lib ?same "ex_networks (Inr ex_observed) None" ex_net]
    quiet [OF states(1)] same
  have first: "ResourceUpToDate (fst (fst (Observe ex_lib (ex_observing ?same None)
        (CloudsqlInstance ex_cr))))"
    "\<forall>x. KubeUpdate x \<notin> set (snd (snd (Observe ex_lib (ex_observing ?same None)
        (CloudsqlInstance ex_cr))))"
    "\<not> ResourceUpToDate (fst (fst (network_Observe (ex_networks (Inr ex_observed) None)
      (Network ex_net))))"
    by simp_all
  from upToDate_tracks_late_initialization [OF fetched Observe_results refl
      network_Observe_results, of ex_lib ?more "ex_networks (Inr ex_observed) None" ex_net]
    quiet [OF states(2)] more changed
  have second: "\<not> ResourceUpToDate (fst (fst (Observe ex_lib (ex_observing ?more None)
        (CloudsqlInstance ex_cr))))"
    "\<exists>rest. snd (snd (Observe ex_lib (ex_observing ?more None) (CloudsqlInstance ex_cr)))
      = InstancesGet ''project'' ''db1''
        # KubeUpdate (ex_cr\<lparr>cr_AtProvider := GenerateObservation ?more,
                            cr_ForProvider := [(''region'', ''us-west2''),
                                               (''tier'', ''db-f1-micro'')]\<rparr>)
        # rest"
    by (simp_all add: names)
  from first second quiet [OF states(1)] quiet [OF states(2)] show ?thesis
    by (simp add: observed)
qed

text \<open>
  The claim as stated fails for the network: the fetch succeeds and the spec is unchanged,
  yet the flag returned is false.
\<close>

theorem network_Observe_never_upToDate_counterexample:
  "net_Get (Networks (ex_networks (Inr ex_observed) None)) ''project'' ''net1'' = Inr ex_observed \<and>
   snd (fst (network_Observe (ex_networks (Inr ex_observed) None) (Network ex_net))) = None \<and>
   ResourceExists (fst (fst (network_Observe (ex_networks (Inr ex_observed) None)
     (Network ex_net)))) \<and>
   fst (snd (network_Observe (ex_networks (Inr ex_observed) None) (Network ex_net)))
     = Network (ex_net\<lparr>net_GCPNetworkStatus := [(''routingMode'', ''REGIONAL'')]\<rparr>) \<and>
   net_GCPNetworkSpec (ex_net\<lparr>net_GCPNetworkStatus := [(''routingMode'', ''REGIONAL'')]\<rparr>)
     = net_GCPNetworkSpec ex_net \<and>
   \<not> ResourceUpToDate (fst (fst (network_Observe (ex_networks (Inr ex_observed) None)
     (Network ex_net))))"
  by (simp add: network_Observe_def ex_networks_def ex_observed_def Let_def
      ExternalObservation_zero_def GenerateGCPNetworkStatus_def)
section \<open>Create\<close>

text \<open>
  Claim C2, as amended.  For every Create call of the database controller, a
  provider-reported "already exists" outcome is treated as success: of two consecutive
  Create calls on a record, the first accepted by the provider and the second answered
  "already exists", both return no error, and the record is unchanged; any other failure
  is returned wrapped with \<^verbatim>\<open>errInsertFailed\<close>.  The network controller's Create returns the
  outcome of the provider's insert as it is, an "already exists" error included.
\<close>

theorem Create_already_exists:
  "(db_Insert (db c1) (projectID c1)
      (GenerateDatabaseInstance (cr_ForProvider cr) (cr_ExternalName cr)) = None \<and>
    IsErrorAlreadyExists (db_Insert (db c2) (projectID c2)
      (GenerateDatabaseInstance (cr_ForProvider cr) (cr_ExternalName cr))) \<longrightarrow>
      snd (fst (Create c1 (CloudsqlInstance cr))) = None \<and>
      fst (snd (Create c1 (CloudsqlInstance cr))) = CloudsqlInstance cr \<and>
      snd (fst (Create c2 (CloudsqlInstance cr))) = None) \<and>
   (db_Insert (db c2) (projectID c2)
      (GenerateDatabaseInstance (cr_ForProvider cr) (cr_ExternalName cr)) = Some e \<and>
    \<not> IsErrorAlreadyExists (Some e) \<longrightarrow>
      snd (fst (Create c2 (CloudsqlInstance cr))) = Some (WithMessage e errInsertFailed)) \<and>
   snd (fst (network_Create nc (Network n)))
     = net_Insert (Networks nc) (net_projectID nc) (GenerateNetwork (net_GCPNetworkSpec n))"
  by (auto simp add: Create_def network_Create_def Let_def Ignore_def split: option.splits)

theorem Create_already_exists_witness:
  "IsErrorAlreadyExists (Some ex_conflict) \<and>
   snd (fst (Create (ex_database (ex_db (Inl ex_gone) None)) (CloudsqlInstance ex_cr))) = None \<and>
   fst (snd (Create (ex_database (ex_db (Inl ex_gone) None)) (CloudsqlInstance ex_cr)))
     = CloudsqlInstance ex_cr \<and>
   snd (fst (Create (ex_database (ex_db (Inl ex_gone) (Some ex_conflict))) (CloudsqlInstance ex_cr)))
     = None \<and>
   \<not> IsErrorAlreadyExists (Some ex_failure) \<and>
   snd (fst (Create (ex_database (ex_db (Inl ex_gone) (Some ex_failure))) (CloudsqlInstance ex_cr)))
     = Some (WithMessage ex_failure errInsertFailed)"
proof -
  let ?first = "ex_database (ex_db (Inl ex_gone) None)"
  let ?second = "ex_database (ex_db (Inl ex_gone) (Some ex_conflict))"
  let ?broken = "ex_database (ex_db (Inl ex_gone) (Some ex_failure))"
  let ?payload = "GenerateDatabaseInstance (cr_ForProvider ex_cr) (cr_ExternalName ex_cr)"
  have conflict: "IsErrorAlreadyExists (Some ex_conflict)"
    by (simp add: ex_conflict_def StatusConflict_def)
  have failure: "\<not> IsErrorAlreadyExists (Some ex_failure)"
    by (simp add: ex_failure_def StatusConflict_def)
  have retry: "db_Insert (db ?first) (projectID ?first) ?payload = None \<and>
      IsErrorAlreadyExists (db_Insert (db ?second) (projectID ?second) ?payload)"
    using conflict by (simp add: ex_database_def ex_db_def)
  have other: "db_Insert (db ?broken) (projectID ?broken) ?payload = Some ex_failure \<and>
      \<not> IsErrorAlreadyExists (Some ex_failure)"
    using failure by (simp add: ex_database_def ex_db_def)
  from Create_already_exists [of ?first ex_cr ?second, THEN conjunct1, THEN mp, OF retry]
    Create_already_exists [of ?first ex_cr ?broken ex_failure, THEN conjunct2, THEN conjunct1,
      THEN mp, OF other]
    conflict failure
  show ?thesis by simp
qed

text \<open>
  The claim as stated fails for the network: a first Create succeeds, the provider answers
  the second with "already exists", and the second Create returns that error.
\<close>

theorem network_Create_already_exists_counterexample:
  "snd (fst (network_Create (ex_networks (Inl ex_gone) None) (Network ex_net))) = None \<and>
   IsErrorAlreadyExists (Some ex_conflict) \<and>
   snd (fst (network_Create (ex_networks (Inl ex_gone) (Some ex_conflict)) (Network ex_net)))
     = Some ex_conflict"
  by (simp add: network_Create_def ex_networks_def ex_conflict_def StatusConflict_def Let_def)
section \<open>Address selection\<close>

text \<open>
  Claim C3, as amended.  Whenever the connection details are derived, let the private-type
  and public-type entries of the observed address list be a private address P and a
  public address Q (entries of other types are skipped).  If Q comes first, or P comes
  first and is not empty, the details contain endpoint=P, privateIP=P and publicIP=Q.
  If the only such entry is Q, they contain endpoint=Q and publicIP=Q and no privateIP
  key.
\<close>

theorem private_address_is_preferred:
  assumes derived: "getConnectionDetails l c cr = ((conn, None), got)"
    and found: "found = filter (\<lambda>ip. IPType ip = PrivateIPType \<or> IPType ip = PublicIPType)
                         (obs_IPAddresses (cr_AtProvider cr))"
  shows
    "(found = [\<lparr>IPAddress = P, IPType = PrivateIPType\<rparr>, \<lparr>IPAddress = Q, IPType = PublicIPType\<rparr>]
        \<and> P \<noteq> [] \<or>
      found = [\<lparr>IPAddress = Q, IPType = PublicIPType\<rparr>, \<lparr>IPAddress = P, IPType = PrivateIPType\<rparr>]
      \<longrightarrow> conn ResourceCredentialsSecretEndpointKey = Some P \<and>
          conn PrivateIPKey = Some P \<and> conn PublicIPKey = Some Q) \<and>
     (found = [\<lparr>IPAddress = Q, IPType = PublicIPType\<rparr>]
      \<longrightarrow> conn ResourceCredentialsSecretEndpointKey = Some Q \<and>
          conn PublicIPKey = Some Q \<and> conn PrivateIPKey = None)"
proof -
  from getConnectionDetails_addresses [OF derived]
  obtain m where conn: "conn = addresses_loop (obs_IPAddresses (cr_AtProvider cr)) m"
    and unset: "m ResourceCredentialsSecretEndpointKey = None" "m PrivateIPKey = None"
    by blast
  from conn found have "conn = addresses_loop found m"
    using addresses_loop_filter [of "obs_IPAddresses (cr_AtProvider cr)" m] by simp
  with unset type_distinct endpoint_distinct type_distinct [symmetric] show ?thesis
    by (auto simp add: Let_def at_key_def)
qed

theorem private_address_is_preferred_witness:
  "fst (fst (getConnectionDetails ex_lib (ex_rotating (Inr ex_secret) (Inr [ex_root]))
      (ex_addressed [ex_private ''10.0.0.5'', ex_outgoing ''8.8.8.8'', ex_public ''1.2.3.4''])))
      ''endpoint'' = Some ''10.0.0.5'' \<and>
   fst (fst (getConnectionDetails ex_lib (ex_rotating (Inr ex_secret) (Inr [ex_root]))
      (ex_addressed [ex_private ''10.0.0.5'', ex_outgoing ''8.8.8.8'', ex_public ''1.2.3.4''])))
      ''privateIP'' = Some ''10.0.0.5'' \<and>
   fst (fst (getConnectionDetails ex_lib (ex_rotating (Inr ex_secret) (Inr [ex_root]))
      (ex_addressed [ex_private ''10.0.0.5'', ex_outgoing ''8.8.8.8'', ex_public ''1.2.3.4''])))
      ''publicIP'' = Some ''1.2.3.4'' \<and>
   fst (fst (getConnectionDetails ex_lib (ex_rotating (Inr ex_secret) (Inr [ex_root]))
      (ex_addressed [ex_public ''1.2.3.4'', ex_private ''10.0.0.5''])))
      ''endpoint'' = Some ''10.0.0.5'' \<and>
   fst (fst (getConnectionDetails ex_lib (ex_rotating (Inr ex_secret) (Inr [ex_root]))
      (ex_addressed [ex_public ''1.2.3.4''])))
      ''endpoint'' = Some ''1.2.3.4'' \<and>
   fst (fst (getConnectionDetails ex_lib (ex_rotating (Inr ex_secret) (Inr [ex_root]))
      (ex_addressed [ex_public ''1.2.3.4''])))
      ''publicIP'' = Some ''1.2.3.4'' \<and>
   fst (fst (getConnectionDetails ex_lib (ex_rotating (Inr ex_secret) (Inr [ex_root]))
      (ex_addressed [ex_public ''1.2.3.4''])))
      ''privateIP'' = None"
proof -
  let ?c = "ex_rotating (Inr ex_secret) (Inr [ex_root])"
  let ?first = "ex_addressed [ex_private ''10.0.0.5'', ex_outgoing ''8.8.8.8'', ex_public ''1.2.3.4'']"
  let ?second = "ex_addressed [ex_public ''1.2.3.4'', ex_private ''10.0.0.5'']"
  let ?only = "ex_addressed [ex_public ''1.2.3.4'']"
  have read: "snd (fst (getConnectionDetails ex_lib ?c cr)) = None" for cr
    by (simp add: getConnectionDetails_def ex_rotating_def ex_kube_def Let_def
        IgnoreNotFound_def Ignore_def)
  have first: "[ex_private ''10.0.0.5'', ex_public ''1.2.3.4'']
      = filter (\<lambda>ip. IPType ip = PrivateIPType \<or> IPType ip = PublicIPType)
          (obs_IPAddresses (cr_AtProvider ?first))"
    by (simp add: ex_addressed_def ex_private_def ex_public_def ex_outgoing_def
        PrivateIPType_def PublicIPType_def)
  have second: "[ex_public ''1.2.3.4'', ex_private ''10.0.0.5'']
      = filter (\<lambda>ip. IPType ip = PrivateIPType \<or> IPType ip = PublicIPType)
          (obs_IPAddresses (cr_AtProvider ?second))"
    by (simp add: ex_addressed_def ex_private_def ex_public_def)
  have only: "[ex_public ''1.2.3.4'']
      = filter (\<lambda>ip. IPType ip = PrivateIPType \<or> IPType ip = PublicIPType)
          (obs_IPAddresses (cr_AtProvider ?only))"
    by (simp add: ex_addressed_def ex_private_def ex_public_def)
  from private_address_is_preferred [OF getConnectionDetails_results [OF read] first,
      of "''10.0.0.5''" "''1.2.3.4''", THEN conjunct1]
    private_address_is_preferred [OF getConnectionDetails_results [OF read] second,
      of "''10.0.0.5''" "''1.2.3.4''", THEN conjunct1]
    private_address_is_preferred [OF getConnectionDetails_results [OF read] only,
      of _ "''1.2.3.4''", THEN conjunct2]
  show ?thesis
    by (simp add: ex_private_def ex_public_def key_defs)
qed

text \<open>
  The claim as stated fails when the private address is the empty string and comes
  first: the public address then takes the endpoint key.
\<close>

theorem empty_private_address_counterexample:
  "snd (fst (getConnectionDetails ex_lib (ex_rotating (Inr ex_secret) (Inr [ex_root]))
      (ex_addressed [ex_private [], ex_public ''1.2.3.4'']))) = None \<and>
   fst (fst (getConnectionDetails ex_lib (ex_rotating (Inr ex_secret) (Inr [ex_root]))
      (ex_addressed [ex_private [], ex_public ''1.2.3.4''])))
      PrivateIPKey = Some [] \<and>
   fst (fst (getConnectionDetails ex_lib (ex_rotating (Inr ex_secret) (Inr [ex_root]))
      (ex_addressed [ex_private [], ex_public ''1.2.3.4''])))
      ResourceCredentialsSecretEndpointKey = Some ''1.2.3.4'' \<and>
   fst (fst (getConnectionDetails ex_lib (ex_rotating (Inr ex_secret) (Inr [ex_root]))
      (ex_addressed [ex_private [], ex_public ''1.2.3.4''])))
      ResourceCredentialsSecretEndpointKey \<noteq> Some []"
  by (simp add: getConnectionDetails_def ex_rotating_def ex_kube_def ex_addressed_def ex_cr_def
      ex_private_def ex_public_def Let_def IgnoreNotFound_def Ignore_def at_key_def key_defs
      PrivateIPType_def PublicIPType_def ex_secret_def)
section \<open>Credential rotation\<close>

text \<open>
  Claim C4, as amended.  For every credential rotation that finds the root user among the
  listed accounts: if the persisted secret holds a non-empty password, the calls are the
  list, the secret read and one user update carrying exactly that password, with no
  password generated; if the secret is absent (not found) or its password is empty or
  missing, and the generator asked for \<^verbatim>\<open>PasswordLength\<close> returns a password, that
  password is staged into the connection details and pushed by exactly one user update.
  A generator that returns at least the requested length gives a password of at least
  \<^verbatim>\<open>PasswordLength\<close>.
\<close>

theorem rotation_reuses_or_generates_password:
  assumes listed: "user_List (user c) (projectID c) (cr_ExternalName cr) = Inr users"
    and root: "find (\<lambda>val. user_Name val = lib_DatabaseUserName l cr) users = Some rootUser"
    and name: "name = \<lparr>nn_Namespace = cr_Namespace cr,
                       nn_Name = cr_WriteConnectionSecretToReference cr\<rparr>"
  shows
    "(kube_Get_Secret (kube c) name = Inr s \<and>
      at_key (secret_Data s) ResourceCredentialsSecretPasswordKey \<noteq> [] \<longrightarrow>
        snd (updateRootCredentials l c cr)
          = [UsersList (projectID c) (cr_ExternalName cr), KubeGetSecret name,
             UsersUpdate (projectID c) (cr_ExternalName cr) (user_Name rootUser)
               (user_Host rootUser)
               (rootUser\<lparr>user_Password :=
                  at_key (secret_Data s) ResourceCredentialsSecretPasswordKey\<rparr>)] \<and>
        fst (fst (updateRootCredentials l c cr)) ResourceCredentialsSecretPasswordKey
          = Some (at_key (secret_Data s) ResourceCredentialsSecretPasswordKey)) \<and>
     ((kube_Get_Secret (kube c) name = Inr s \<and>
       at_key (secret_Data s) ResourceCredentialsSecretPasswordKey = [] \<or>
       kube_Get_Secret (kube c) name = Inl e \<and> IsNotFound (Some e)) \<and>
      lib_GeneratePassword l PasswordLength = Inr new \<longrightarrow>
        snd (updateRootCredentials l c cr)
          = [UsersList (projectID c) (cr_ExternalName cr), KubeGetSecret name,
             GeneratePassword PasswordLength,
             UsersUpdate (projectID c) (cr_ExternalName cr) (user_Name rootUser)
               (user_Host rootUser) (rootUser\<lparr>user_Password := new\<rparr>)] \<and>
        fst (fst (updateRootCredentials l c cr)) ResourceCredentialsSecretPasswordKey
          = Some new \<and>
        ((\<forall>n p. lib_GeneratePassword l n = Inr p \<longrightarrow> n \<le> length p) \<longrightarrow>
           PasswordLength \<le> length new))"
proof (intro conjI impI)
  assume held: "kube_Get_Secret (kube c) name = Inr s \<and>
      at_key (secret_Data s) ResourceCredentialsSecretPasswordKey \<noteq> []"
  with getConnectionDetails_read [of c cr s e l] name
  obtain conn where g: "getConnectionDetails l c cr = ((conn, None), [KubeGetSecret name])"
    by auto
  from getConnectionDetails_password [OF g [unfolded name]] held name
  have pw: "at_key conn ResourceCredentialsSecretPasswordKey
      = at_key (secret_Data s) ResourceCredentialsSecretPasswordKey"
    by simp
  from held pw have "conn ResourceCredentialsSecretPasswordKey
      = Some (at_key (secret_Data s) ResourceCredentialsSecretPasswordKey)"
    by (auto simp add: at_key_def split: option.splits)
  with listed root g pw held
  show "snd (updateRootCredentials l c cr)
          = [UsersList (projectID c) (cr_ExternalName cr), KubeGetSecret name,
             UsersUpdate (projectID c) (cr_ExternalName cr) (user_Name rootUser)
               (user_Host rootUser)
               (rootUser\<lparr>user_Password :=
                  at_key (secret_Data s) ResourceCredentialsSecretPasswordKey\<rparr>)]"
    and "fst (fst (updateRootCredentials l c cr)) ResourceCredentialsSecretPasswordKey
          = Some (at_key (secret_Data s) ResourceCredentialsSecretPasswordKey)"
    by (simp_all add: updateRootCredentials_def pushRootUser_def Let_def)
next
  assume absent: "(kube_Get_Secret (kube c) name = Inr s \<and>
       at_key (secret_Data s) ResourceCredentialsSecretPasswordKey = [] \<or>
       kube_Get_Secret (kube c) name = Inl e \<and> IsNotFound (Some e)) \<and>
      lib_GeneratePassword l PasswordLength = Inr new"
  with getConnectionDetails_read [of c cr s e l] name
  obtain conn where g: "getConnectionDetails l c cr = ((conn, None), [KubeGetSecret name])"
    by auto
  from getConnectionDetails_password [OF g [unfolded name]] absent name
  have pw: "at_key conn ResourceCredentialsSecretPasswordKey = []"
    by (auto simp add: empty_secret_def at_key_def)
  with listed root g absent
  show "snd (updateRootCredentials l c cr)
          = [UsersList (projectID c) (cr_ExternalName cr), KubeGetSecret name,
             GeneratePassword PasswordLength,
             UsersUpdate (projectID c) (cr_ExternalName cr) (user_Name rootUser)
               (user_Host rootUser) (rootUser\<lparr>user_Password := new\<rparr>)]"
    and "fst (fst (updateRootCredentials l c cr)) ResourceCredentialsSecretPasswordKey
          = Some new"
    by (simp_all add: updateRootCredentials_def pushRootUser_def Let_def)
  assume "\<forall>n p. lib_GeneratePassword l n = Inr p \<longrightarrow> n \<le> length p"
  with absent show "PasswordLength \<le> length new"
    by blast
qed

theorem rotation_reuses_or_generates_password_witness:
  "snd (updateRootCredentials ex_lib (ex_rotating (Inr ex_secret) (Inr [ex_root])) ex_cr)
     = [UsersList ''project'' ''db1'',
        KubeGetSecret \<lparr>nn_Namespace = ''default'', nn_Name = ''db1-conn''\<rparr>,
        UsersUpdate ''project'' ''db1'' ''root'' ''%'' (ex_root\<lparr>user_Password := ''secretpw''\<rparr>)] \<and>
   fst (fst (updateRootCredentials ex_lib (ex_rotating (Inr ex_secret) (Inr [ex_root])) ex_cr))
     ''password'' = Some ''secretpw'' \<and>
   snd (updateRootCredentials ex_lib
          (ex_rotating (Inl (StatusError ''NotFound'' ''no secret'')) (Inr [ex_root])) ex_cr)
     = [UsersList ''project'' ''db1'',
        KubeGetSecret \<lparr>nn_Namespace = ''default'', nn_Name = ''db1-conn''\<rparr>,
        GeneratePassword 20,
        UsersUpdate ''project'' ''db1'' ''root'' ''%''
          (ex_root\<lparr>user_Password := ''xxxxxxxxxxxxxxxxxxxx''\<rparr>)] \<and>
   fst (fst (updateRootCredentials ex_lib
          (ex_rotating (Inl (StatusError ''NotFound'' ''no secret'')) (Inr [ex_root])) ex_cr))
     ''password'' = Some ''xxxxxxxxxxxxxxxxxxxx'' \<and>
   PasswordLength \<le> length ''xxxxxxxxxxxxxxxxxxxx''"
proof -
  let ?held = "ex_rotating (Inr ex_secret) (Inr [ex_root])"
  let ?absent = "ex_rotating (Inl (StatusError ''NotFound'' ''no secret'')) (Inr [ex_root])"
  let ?name = "\<lparr>nn_Namespace = ''default'', nn_Name = ''db1-conn''\<rparr>"
  have name: "?name = \<lparr>nn_Namespace = cr_Namespace ex_cr,
                        nn_Name = cr_WriteConnectionSecretToReference ex_cr\<rparr>"
    by (simp add: ex_cr_def)
  have listed: "user_List (user ?held) (projectID ?held) (cr_ExternalName ex_cr) = Inr [ex_root]"
    "user_List (user ?absent) (projectID ?absent) (cr_ExternalName ex_cr) = Inr [ex_root]"
    by (simp_all add: ex_rotating_def ex_users_def)
  have root: "find (\<lambda>val. user_Name val = lib_DatabaseUserName ex_lib ex_cr) [ex_root]
      = Some ex_root"
    by (simp add: ex_lib_def ex_root_def)
  have held: "kube_Get_Secret (kube ?held) ?name = Inr ex_secret \<and>
      at_key (secret_Data ex_secret) ResourceCredentialsSecretPasswordKey \<noteq> []"
    by (simp add: ex_rotating_def ex_kube_def ex_secret_def at_key_def
        ResourceCredentialsSecretPasswordKey_def)
  have generated: "lib_GeneratePassword ex_lib PasswordLength = Inr ''xxxxxxxxxxxxxxxxxxxx''"
    by (simp add: ex_lib_def PasswordLength_def eval_nat_numeral)
  have absent: "(kube_Get_Secret (kube ?absent) ?name = Inr ex_secret \<and>
       at_key (secret_Data ex_secret) ResourceCredentialsSecretPasswordKey = [] \<or>
       kube_Get_Secret (kube ?absent) ?name = Inl (StatusError ''NotFound'' ''no secret'') \<and>
       IsNotFound (Some (StatusError ''NotFound'' ''no secret''))) \<and>
      lib_GeneratePassword ex_lib PasswordLength = Inr ''xxxxxxxxxxxxxxxxxxxx''"
    using generated by (simp add: ex_rotating_def ex_kube_def)
  have contract: "\<forall>n p. lib_GeneratePassword ex_lib n = Inr p \<longrightarrow> n \<le> length p"
    by (auto simp add: ex_lib_def)
  from rotation_reuses_or_generates_password [OF listed(1) root name, THEN conjunct1, THEN mp,
      OF held]
    rotation_reuses_or_generates_password [OF listed(2) root name, THEN conjunct2, THEN mp,
      OF absent]
    contract
  show ?thesis
    by (simp add: ex_rotating_def ex_cr_def ex_root_def ex_secret_def at_key_def
        ResourceCredentialsSecretPasswordKey_def PasswordLength_def)
qed

text \<open>
  The claim as stated fails when the rotation stops before the password is chosen: the
  secret is absent and the listing of the accounts fails, so the rotation returns the
  listing error, and no password is generated or pushed.
\<close>

theorem rotation_listing_failure_counterexample:
  "kube_Get_Secret (kube (ex_rotating (Inl (StatusError ''NotFound'' ''no secret''))
      (Inl ex_failure))) \<lparr>nn_Namespace = ''default'', nn_Name = ''db1-conn''\<rparr>
     = Inl (StatusError ''NotFound'' ''no secret'') \<and>
   IsNotFound (Some (StatusError ''NotFound'' ''no secret'')) \<and>
   snd (fst (updateRootCredentials ex_lib
      (ex_rotating (Inl (StatusError ''NotFound'' ''no secret'')) (Inl ex_failure)) ex_cr))
     = Some ex_failure \<and>
   snd (updateRootCredentials ex_lib
      (ex_rotating (Inl (StatusError ''NotFound'' ''no secret'')) (Inl ex_failure)) ex_cr)
     = [UsersList ''project'' ''db1'']"
  by (simp add: updateRootCredentials_def ex_rotating_def ex_users_def ex_kube_def ex_cr_def)
section \<open>Observe on an absent resource\<close>

text \<open>
  Claim C5, as amended.  For every Observe call where the provider reports the resource
  absent (not found), Observe returns exists=false with no error, having made the fetch
  only, and leaves the record as it was.  Any other fetch failure is returned as an
  error: wrapped with \<^verbatim>\<open>errGetFailed\<close> by the database controller, and as the provider gave
  it, without a prefix, by the network controller.
\<close>

theorem Observe_absent:
  "(db_Get (db c) (projectID c) (cr_ExternalName cr) = Inl e \<and> IsErrorNotFound (Some e) \<longrightarrow>
      Observe l c (CloudsqlInstance cr)
        = ((ExternalObservation_zero, None), CloudsqlInstance cr,
           [InstancesGet (projectID c) (cr_ExternalName cr)])) \<and>
   (db_Get (db c) (projectID c) (cr_ExternalName cr) = Inl e \<and> \<not> IsErrorNotFound (Some e) \<longrightarrow>
      snd (fst (Observe l c (CloudsqlInstance cr))) = Some (WithMessage e errGetFailed)) \<and>
   (net_Get (Networks nc) (net_projectID nc) (spec_Name (net_GCPNetworkSpec n)) = Inl e' \<and>
    IsErrorNotFound (Some e') \<longrightarrow>
      network_Observe nc (Network n)
        = ((ExternalObservation_zero, None), Network n,
           [NetworksGet (net_projectID nc) (spec_Name (net_GCPNetworkSpec n))])) \<and>
   (net_Get (Networks nc) (net_projectID nc) (spec_Name (net_GCPNetworkSpec n)) = Inl e' \<and>
    \<not> IsErrorNotFound (Some e') \<longrightarrow>
      snd (fst (network_Observe nc (Network n))) = Some e') \<and>
   ResourceExists ExternalObservation_zero = False"
  by (simp add: Observe_def network_Observe_def Let_def Ignore_def ExternalObservation_zero_def)

theorem Observe_absent_witness:
  "IsErrorNotFound (Some ex_gone) \<and>
   Observe ex_lib (ex_database (ex_db (Inl ex_gone) None)) (CloudsqlInstance ex_cr)
     = ((ExternalObservation_zero, None), CloudsqlInstance ex_cr, [InstancesGet ''project'' ''db1'']) \<and>
   \<not> IsErrorNotFound (Some ex_failure) \<and>
   snd (fst (Observe ex_lib (ex_database (ex_db (Inl ex_failure) None)) (CloudsqlInstance ex_cr)))
     = Some (WithMessage ex_failure errGetFailed) \<and>
   network_Observe (ex_networks (Inl ex_gone) None) (Network ex_net)
     = ((ExternalObservation_zero, None), Network ex_net, [NetworksGet ''project'' ''net1'']) \<and>
   snd (fst (network_Observe (ex_networks (Inl ex_failure) None) (Network ex_net)))
     = Some ex_failure"
  using Observe_absent [of "ex_database (ex_db (Inl ex_gone) None)" ex_cr ex_gone ex_lib
      "ex_networks (Inl ex_gone) None" ex_net ex_gone]
    Observe_absent [of "ex_database (ex_db (Inl ex_failure) None)" ex_cr ex_failure ex_lib
      "ex_networks (Inl ex_failure) None" ex_net ex_failure]
  by (simp add: ex_database_def ex_db_def ex_networks_def ex_cr_def ex_net_def ex_gone_def
      ex_failure_def StatusNotFound_def)

text \<open>
  The claim as stated fails for the network: a fetch failure other than "not found" comes
  back as it is, not wrapped.
\<close>

theorem network_Observe_unwrapped_counterexample:
  "\<not> IsErrorNotFound (Some ex_failure) \<and>
   snd (fst (network_Observe (ex_networks (Inl ex_failure) None) (Network ex_net)))
     = Some ex_failure \<and>
   \<not> is_wrapped (snd (fst (network_Observe (ex_networks (Inl ex_failure) None) (Network ex_net))))"
  by (simp add: network_Observe_def ex_networks_def ex_failure_def StatusNotFound_def Let_def)
section \<open>Update\<close>

text \<open>
  Claim C6.  For every Update call of the database controller, if the credential rotation
  fails with an error \<open>e\<close>, Update returns \<open>e\<close> wrapped with \<^verbatim>\<open>errUpdateRootFailed\<close> and no
  patch request is among the calls made.  When the listed remote accounts hold none with
  the derived root user name, the rotation fails with the user-not-found error (a
  \<^verbatim>\<open>googleapi.Error\<close> with code 404).
\<close>

theorem Update_aborts_on_rotation_failure:
  "(snd (fst (updateRootCredentials l c cr)) = Some e \<longrightarrow>
      snd (fst (Update l c (CloudsqlInstance cr))) = Some (WithMessage e errUpdateRootFailed) \<and>
      (\<forall>p n i. InstancesPatch p n i \<notin> set (snd (snd (Update l c (CloudsqlInstance cr)))))) \<and>
   (user_List (user c) (projectID c) (cr_ExternalName cr) = Inr users \<and>
    \<not> (\<exists>u \<in> set users. user_Name u = lib_DatabaseUserName l cr) \<longrightarrow>
      snd (fst (updateRootCredentials l c cr))
        = Some (GoogleapiError StatusNotFound
                  (''user: '' @ lib_DatabaseUserName l cr @ '' is not found'')))"
proof (intro conjI impI allI)
  assume failed: "snd (fst (updateRootCredentials l c cr)) = Some e"
  then obtain conn calls where r: "updateRootCredentials l c cr = ((conn, Some e), calls)"
    by (metis prod.collapse)
  then show "snd (fst (Update l c (CloudsqlInstance cr))) = Some (WithMessage e errUpdateRootFailed)"
    by (simp add: Update_def)
  fix p n i
  from r updateRootCredentials_no_patch [of p n i l c cr]
  show "InstancesPatch p n i \<notin> set (snd (snd (Update l c (CloudsqlInstance cr))))"
    by (simp add: Update_def)
next
  assume "user_List (user c) (projectID c) (cr_ExternalName cr) = Inr users \<and>
    \<not> (\<exists>u \<in> set users. user_Name u = lib_DatabaseUserName l cr)"
  then have "user_List (user c) (projectID c) (cr_ExternalName cr) = Inr users"
    and "find (\<lambda>val. user_Name val = lib_DatabaseUserName l cr) users = None"
    by (auto simp add: find_None_iff)
  then show "snd (fst (updateRootCredentials l c cr))
        = Some (GoogleapiError StatusNotFound
                  (''user: '' @ lib_DatabaseUserName l cr @ '' is not found''))"
    by (simp add: updateRootCredentials_def)
qed

theorem Update_aborts_on_rotation_failure_witness:
  "user_List (user (ex_rotating (Inr ex_secret) (Inr []))) ''project'' ''db1'' = Inr [] \<and>
   \<not> (\<exists>u \<in> set []. user_Name u = ''root'') \<and>
   snd (fst (updateRootCredentials ex_lib (ex_rotating (Inr ex_secret) (Inr [])) ex_cr))
     = Some (GoogleapiError 404 ''user: root is not found'') \<and>
   snd (fst (Update ex_lib (ex_rotating (Inr ex_secret) (Inr [])) (CloudsqlInstance ex_cr)))
     = Some (WithMessage (GoogleapiError 404 ''user: root is not found'') errUpdateRootFailed) \<and>
   (\<forall>p n i. InstancesPatch p n i
      \<notin> set (snd (snd (Update ex_lib (ex_rotating (Inr ex_secret) (Inr [])) (CloudsqlInstance ex_cr)))))"
proof -
  let ?c = "ex_rotating (Inr ex_secret) (Inr [])"
  have listed: "user_List (user ?c) (projectID ?c) (cr_ExternalName ex_cr) = Inr [] \<and>
      \<not> (\<exists>u \<in> set []. user_Name u = lib_DatabaseUserName ex_lib ex_cr)"
    by (simp add: ex_rotating_def ex_users_def)
  from Update_aborts_on_rotation_failure [of ex_lib ?c ex_cr _ "[]", THEN conjunct2, THEN mp,
      OF listed]
  have absent: "snd (fst (updateRootCredentials ex_lib ?c ex_cr))
      = Some (GoogleapiError 404 ''user: root is not found'')"
    by (simp add: ex_lib_def StatusNotFound_def)
  from Update_aborts_on_rotation_failure [of ex_lib ?c ex_cr, THEN conjunct1, THEN mp, OF absent]
    absent listed
  show ?thesis by (simp add: ex_rotating_def ex_users_def)
qed
section \<open>Lifecycle phase and condition\<close>

text \<open>
  Claim C7, as amended.  For every Observe call that finds the resource and gets past the
  write-back of the late-initialised spec (there was nothing to write, or the write
  succeeded), the observed lifecycle phase determines the condition set on the record and
  whether connection details are derived.  A Runnable phase sets the Available condition
  and the secret is read to derive the connection details; a Creating phase sets the
  Creating condition; the creation-failed, suspended, maintenance and unknown phases set
  the Unavailable condition; and in every phase other than Runnable no secret is read, no
  error is returned and the connection details are empty.
\<close>

theorem phase_determines_condition:
  assumes fetched: "db_Get (db c) (projectID c) (cr_ExternalName cr) = Inr instance"
    and persisted: "LateInitializeSpec (cr_ForProvider cr) instance = cr_ForProvider cr \<or>
      kube_Update (kube c)
        (cr\<lparr>cr_AtProvider := GenerateObservation instance,
            cr_ForProvider := LateInitializeSpec (cr_ForProvider cr) instance\<rparr>) = None"
    and result: "Observe l c (CloudsqlInstance cr) = ((obs, err), mg', calls)"
    and phase: "phase = obs_State (GenerateObservation instance)"
  shows "\<exists>cr'. mg' = CloudsqlInstance cr' \<and>
     (phase = StateRunnable \<longrightarrow>
        cr_Conditions cr' = SetConditions (cr_Conditions cr) Available \<and>
        Available \<in> set (cr_Conditions cr') \<and>
        KubeGetSecret \<lparr>nn_Namespace = cr_Namespace cr,
                        nn_Name = cr_WriteConnectionSecretToReference cr\<rparr> \<in> set calls) \<and>
     (phase = StateCreating \<longrightarrow>
        cr_Conditions cr' = SetConditions (cr_Conditions cr) Creating \<and>
        Creating \<in> set (cr_Conditions cr')) \<and>
     (phase \<in> {StateCreationFailed, StateSuspended, StateMaintenance, StateUnknownState} \<longrightarrow>
        cr_Conditions cr' = SetConditions (cr_Conditions cr) Unavailable \<and>
        Unavailable \<in> set (cr_Conditions cr')) \<and>
     (phase \<noteq> StateRunnable \<longrightarrow>
        (\<forall>name. KubeGetSecret name \<notin> set calls) \<and> err = None \<and>
        ConnectionDetails obs = Map.empty)"
proof -
  define cr2 where "cr2 = cr\<lparr>cr_AtProvider := GenerateObservation instance,
      cr_ForProvider := LateInitializeSpec (cr_ForProvider cr) instance\<rparr>"
  have at: "obs_State (cr_AtProvider cr2) = phase" "cr_Conditions cr2 = cr_Conditions cr"
    "cr_Namespace cr2 = cr_Namespace cr"
    "cr_WriteConnectionSecretToReference cr2 = cr_WriteConnectionSecretToReference cr"
    by (simp_all add: cr2_def phase)
  from persisted have persisted': "LateInitializeSpec (cr_ForProvider cr) instance = cr_ForProvider cr \<or>
      kube_Update (kube c) cr2 = None"
    by (simp add: cr2_def)
  note found = Observe_found [OF fetched cr2_def persisted', of l]
  from found(1) result have mg': "mg' = CloudsqlInstance (fst (snd (observe_state l c cr2)))"
    by simp
  from found(2) result observe_state_attempt [of l c cr2] at
  have calls: "calls = InstancesGet (projectID c) (cr_ExternalName cr)
             # (if LateInitializeSpec (cr_ForProvider cr) instance = cr_ForProvider cr
                then [] else [KubeUpdate cr2])
             @ (if phase = StateRunnable
                then [KubeGetSecret \<lparr>nn_Namespace = cr_Namespace cr,
                             nn_Name = cr_WriteConnectionSecretToReference cr\<rparr>]
                else [])"
    by simp
  have idle: "err = None \<and> ConnectionDetails obs = Map.empty" if "phase \<noteq> StateRunnable"
  proof -
    from that at have quiet: "fst (observe_state l c cr2) = (Map.empty, None)"
      by (simp add: observe_state_idle)
    with found(3) result have "err = None" by simp
    moreover from quiet found(4) result have "ConnectionDetails obs = Map.empty" by simp
    ultimately show ?thesis by simp
  qed
  from observe_state_record [of l c cr2] at
  have conditions: "cr_Conditions (fst (snd (observe_state l c cr2)))
     = (if phase = StateRunnable then SetConditions (cr_Conditions cr) Available
        else if phase = StateCreating then SetConditions (cr_Conditions cr) Creating
        else if phase \<in> {StateCreationFailed, StateSuspended, StateMaintenance, StateUnknownState}
        then SetConditions (cr_Conditions cr) Unavailable
        else cr_Conditions cr)"
    by simp
  show ?thesis
  proof (intro exI conjI impI)
    show "mg' = CloudsqlInstance (fst (snd (observe_state l c cr2)))" by (rule mg')
  next
    assume "phase = StateRunnable"
    with conditions calls
    show "cr_Conditions (fst (snd (observe_state l c cr2)))
        = SetConditions (cr_Conditions cr) Available"
      and "Available \<in> set (cr_Conditions (fst (snd (observe_state l c cr2))))"
      and "KubeGetSecret \<lparr>nn_Namespace = cr_Namespace cr,
                        nn_Name = cr_WriteConnectionSecretToReference cr\<rparr> \<in> set calls"
      by (simp_all add: SetConditions_member)
  next
    assume "phase = StateCreating"
    with conditions state_distinct
    show "cr_Conditions (fst (snd (observe_state l c cr2)))
        = SetConditions (cr_Conditions cr) Creating"
      and "Creating \<in> set (cr_Conditions (fst (snd (observe_state l c cr2))))"
      by (simp_all add: SetConditions_member)
  next
    assume "phase \<in> {StateCreationFailed, StateSuspended, StateMaintenance, StateUnknownState}"
    with conditions state_distinct
    show "cr_Conditions (fst (snd (observe_state l c cr2)))
        = SetConditions (cr_Conditions cr) Unavailable"
      and "Unavailable \<in> set (cr_Conditions (fst (snd (observe_state l c cr2))))"
      by (auto simp add: SetConditions_member)
  next
    assume other: "phase \<noteq> StateRunnable"
    with calls show "\<forall>name. KubeGetSecret name \<notin> set calls" by simp
    from idle [OF other] show "err = None" and "ConnectionDetails obs = Map.empty"
      by simp_all
  qed
qed

theorem phase_determines_condition_witness:
  "(\<exists>cr'. fst (snd (Observe ex_lib
        (ex_observing (ex_instance StateRunnable [(''region'', ''us-west2'')]) None)
        (CloudsqlInstance ex_cr))) = CloudsqlInstance cr' \<and>
      cr_Conditions cr' = [Available]) \<and>
   KubeGetSecret \<lparr>nn_Namespace = ''default'', nn_Name = ''db1-conn''\<rparr>
     \<in> set (snd (snd (Observe ex_lib
        (ex_observing (ex_instance StateRunnable [(''region'', ''us-west2'')]) None)
        (CloudsqlInstance ex_cr)))) \<and>
   (\<exists>cr'. fst (snd (Observe ex_lib
        (ex_observing (ex_instance StateCreating [(''tier'', ''db-f1-micro'')]) None)
        (CloudsqlInstance ex_cr))) = CloudsqlInstance cr' \<and>
      cr_Conditions cr' = [Creating]) \<and>
   (\<forall>name. KubeGetSecret name
     \<notin> set (snd (snd (Observe ex_lib
        (ex_observing (ex_instance StateCreating [(''tier'', ''db-f1-micro'')]) None)
        (CloudsqlInstance ex_cr))))) \<and>
   (\<exists>cr'. fst (snd (Observe ex_lib
        (ex_observing (ex_instance StateSuspended [(''region'', ''us-west2'')]) None)
        (CloudsqlInstance ex_cr))) = CloudsqlInstance cr' \<and>
      cr_Conditions cr' = [Unavailable]) \<and>
   ConnectionDetails (fst (fst (Observe ex_lib
        (ex_observing (ex_instance StateSuspended [(''region'', ''us-west2'')]) None)
        (CloudsqlInstance ex_cr)))) = Map.empty"
proof -
  let ?run = "ex_instance StateRunnable [(''region'', ''us-west2'')]"
  let ?new = "ex_instance StateCreating [(''tier'', ''db-f1-micro'')]"
  let ?off = "ex_instance StateSuspended [(''region'', ''us-west2'')]"
  have fetched: "db_Get (db (ex_observing i None)) (projectID (ex_observing i None))
      (cr_ExternalName ex_cr) = Inr i" for i
    by (simp add: ex_observing_def ex_db_def)
  have persisted: "LateInitializeSpec (cr_ForProvider ex_cr) i = cr_ForProvider ex_cr \<or>
      kube_Update (kube (ex_observing i None))
        (ex_cr\<lparr>cr_AtProvider := GenerateObservation i,
            cr_ForProvider := LateInitializeSpec (cr_ForProvider ex_cr) i\<rparr>) = None" for i
    by (simp add: ex_observing_def ex_kube_def)
  have phase: "StateRunnable = obs_State (GenerateObservation ?run)"
    "StateCreating = obs_State (GenerateObservation ?new)"
    "StateSuspended = obs_State (GenerateObservation ?off)"
    by (simp_all add: GenerateObservation_def ex_instance_def)
  have names: "cr_Namespace ex_cr = ''default''"
    "cr_WriteConnectionSecretToReference ex_cr = ''db1-conn''"
    by (simp_all add: ex_cr_def)
  have empty: "SetConditions (cr_Conditions ex_cr) x = [x]" for x
    by (simp add: SetConditions_def ex_cr_def)
  from phase_determines_condition [OF fetched persisted Observe_results [of ex_lib] phase(1)]
    phase_determines_condition [OF fetched persisted Observe_results [of ex_lib] phase(2)]
    phase_determines_condition [OF fetched persisted Observe_results [of ex_lib] phase(3)]
    state_distinct
  show ?thesis
    by (auto simp add: empty names)
qed

text \<open>
  The claim as stated fails when the write-back fails: the resource is found in the
  Runnable phase, late initialization changes the spec, the write of the record is
  refused, and Observe returns that error with no condition set and no secret read.
\<close>

theorem write_back_failure_counterexample:
  "db_Get (db (ex_observing (ex_instance StateRunnable [(''tier'', ''db-f1-micro'')])
                 (Some ex_failure))) ''project'' ''db1''
     = Inr (ex_instance StateRunnable [(''tier'', ''db-f1-micro'')]) \<and>
   obs_State (GenerateObservation (ex_instance StateRunnable [(''tier'', ''db-f1-micro'')]))
     = StateRunnable \<and>
   snd (fst (Observe ex_lib
      (ex_observing (ex_instance StateRunnable [(''tier'', ''db-f1-micro'')]) (Some ex_failure))
      (CloudsqlInstance ex_cr))) = Some (WithMessage ex_failure errManagedUpdateFailed) \<and>
   fst (snd (Observe ex_lib
      (ex_observing (ex_instance StateRunnable [(''tier'', ''db-f1-micro'')]) (Some ex_failure))
      (CloudsqlInstance ex_cr)))
     = CloudsqlInstance
         (ex_cr\<lparr>cr_AtProvider := \<lparr>obs_State = StateRunnable,
                                     obs_IPAddresses = [ex_public ''1.2.3.4'']\<rparr>,
                 cr_ForProvider := [(''region'', ''us-west2''), (''tier'', ''db-f1-micro'')]\<rparr>) \<and>
   cr_Conditions
     (ex_cr\<lparr>cr_AtProvider := \<lparr>obs_State = StateRunnable,
                                 obs_IPAddresses = [ex_public ''1.2.3.4'']\<rparr>,
             cr_ForProvider := [(''region'', ''us-west2''), (''tier'', ''db-f1-micro'')]\<rparr>) = [] \<and>
   snd (snd (Observe ex_lib
      (ex_observing (ex_instance StateRunnable [(''tier'', ''db-f1-micro'')]) (Some ex_failure))
      (CloudsqlInstance ex_cr)))
     = [InstancesGet ''project'' ''db1'',
        KubeUpdate
          (ex_cr\<lparr>cr_AtProvider := \<lparr>obs_State = StateRunnable,
                                      obs_IPAddresses = [ex_public ''1.2.3.4'']\<rparr>,
                  cr_ForProvider := [(''region'', ''us-west2''), (''tier'', ''db-f1-micro'')]\<rparr>)]"
proof -
  let ?i = "ex_instance StateRunnable [(''tier'', ''db-f1-micro'')]"
  let ?c = "ex_observing ?i (Some ex_failure)"
  have fetched: "db_Get (db ?c) (projectID ?c) (cr_ExternalName ex_cr) = Inr ?i"
    by (simp add: ex_observing_def ex_db_def)
  have late: "LateInitializeSpec (cr_ForProvider ex_cr) ?i
      = [(''region'', ''us-west2''), (''tier'', ''db-f1-micro'')]"
    by (simp add: LateInitializeSpec_def ex_cr_def ex_instance_def)
  then have changed: "LateInitializeSpec (cr_ForProvider ex_cr) ?i \<noteq> cr_ForProvider ex_cr"
    by (simp add: ex_cr_def)
  have observed: "GenerateObservation ?i
      = \<lparr>obs_State = StateRunnable, obs_IPAddresses = [ex_public ''1.2.3.4'']\<rparr>"
    by (simp add: GenerateObservation_def ex_instance_def)
  have failed: "kube_Update (kube ?c) x = Some ex_failure" for x
    by (simp add: ex_observing_def ex_kube_def)
  have names: "projectID ?c = ''project''" "cr_ExternalName ex_cr = ''db1''"
    "cr_Conditions ex_cr = []"
    by (simp_all add: ex_observing_def ex_cr_def)
  from Observe_write_failed [OF fetched refl changed failed, of ex_lib] fetched
  show ?thesis
    by (simp add: late observed names)
qed
section \<open>Delete\<close>

text \<open>
  Claim C8.  For every Delete call on either resource type, a provider-reported "not
  found" outcome is absorbed and Delete returns no error; any other provider failure is
  returned as an error: wrapped with \<^verbatim>\<open>errDeleteFailed\<close> by the database controller, as
  the provider gave it by the network controller.
\<close>

theorem Delete_absorbs_not_found:
  "(IsErrorNotFound (db_Delete (db c) (projectID c) (cr_ExternalName cr)) \<longrightarrow>
      fst (Delete c (CloudsqlInstance cr)) = None) \<and>
   (db_Delete (db c) (projectID c) (cr_ExternalName cr) = Some e \<and> \<not> IsErrorNotFound (Some e) \<longrightarrow>
      fst (Delete c (CloudsqlInstance cr)) = Some (WithMessage e errDeleteFailed)) \<and>
   (IsErrorNotFound (net_Delete (Networks nc) (net_projectID nc) (spec_Name (net_GCPNetworkSpec n))) \<longrightarrow>
      fst (network_Delete nc (Network n)) = None) \<and>
   (net_Delete (Networks nc) (net_projectID nc) (spec_Name (net_GCPNetworkSpec n)) = Some e' \<and>
    \<not> IsErrorNotFound (Some e') \<longrightarrow>
      fst (network_Delete nc (Network n)) = Some e')"
  by (simp add: Delete_def network_Delete_def Let_def)

theorem Delete_absorbs_not_found_witness:
  "IsErrorNotFound (db_Delete (db (ex_database (ex_db (Inl ex_gone) (Some ex_gone)))) ''project'' ''db1'') \<and>
   fst (Delete (ex_database (ex_db (Inl ex_gone) (Some ex_gone))) (CloudsqlInstance ex_cr)) = None \<and>
   \<not> IsErrorNotFound (Some ex_failure) \<and>
   fst (Delete (ex_database (ex_db (Inl ex_gone) (Some ex_failure))) (CloudsqlInstance ex_cr))
     = Some (WithMessage ex_failure errDeleteFailed) \<and>
   fst (network_Delete (ex_networks (Inl ex_gone) (Some ex_gone)) (Network ex_net)) = None \<and>
   fst (network_Delete (ex_networks (Inl ex_gone) (Some ex_failure)) (Network ex_net))
     = Some ex_failure"
  using Delete_absorbs_not_found [of "ex_database (ex_db (Inl ex_gone) (Some ex_gone))" ex_cr
      ex_gone "ex_networks (Inl ex_gone) (Some ex_gone)" ex_net ex_gone]
    Delete_absorbs_not_found [of "ex_database (ex_db (Inl ex_gone) (Some ex_failure))" ex_cr
      ex_failure "ex_networks (Inl ex_gone) (Some ex_failure)" ex_net ex_failure]
  by (simp add: ex_database_def ex_db_def ex_networks_def ex_cr_def ex_net_def ex_gone_def
      ex_failure_def StatusNotFound_def)
section \<open>The type assertion\<close>

text \<open>
  Claim C10.  Every lifecycle operation (Connect, Observe, Create, Update, Delete) of both
  controllers, given a managed record that is not of the controller's resource type,
  returns the error "managed resource is not a ..." at once: no call is made to the
  provider or to the Kubernetes client, and the record (and the connector) is returned
  as it was given.
\<close>

theorem wrong_type_rejected:
  "((\<forall>cr. mg \<noteq> CloudsqlInstance cr) \<longrightarrow>
      Connect l cc mg = Some ((None, Some (ErrorNew errNotCloudsql)), mg, cc, []) \<and>
      Observe l c mg = ((ExternalObservation_zero, Some (ErrorNew errNotCloudsql)), mg, []) \<and>
      Create c mg = ((Map.empty, Some (ErrorNew errNotCloudsql)), mg, []) \<and>
      Update l c mg = ((Map.empty, Some (ErrorNew errNotCloudsql)), mg, []) \<and>
      Delete c mg = (Some (ErrorNew errNotCloudsql), mg, [])) \<and>
   ((\<forall>n. mg' \<noteq> Network n) \<longrightarrow>
      network_Connect f nc mg' = Some ((None, Some (ErrorNew errNotNetwork)), mg', nc, []) \<and>
      network_Observe c' mg' = ((ExternalObservation_zero, Some (ErrorNew errNotNetwork)), mg', []) \<and>
      network_Create c' mg' = ((Map.empty, Some (ErrorNew errNotNetwork)), mg', []) \<and>
      network_Update c' mg' = ((Map.empty, Some (ErrorNew errNotNetwork)), mg', []) \<and>
      network_Delete c' mg' = (Some (ErrorNew errNotNetwork), mg', [])) \<and>
   errNotCloudsql = ''managed resource is not a CloudsqlInstance CR'' \<and>
   errNotNetwork = ''managed resource is not a Network resource''"
proof -
  have db: "\<forall>cr. mg \<noteq> CloudsqlInstance cr \<Longrightarrow>
      Connect l cc mg = Some ((None, Some (ErrorNew errNotCloudsql)), mg, cc, []) \<and>
      Observe l c mg = ((ExternalObservation_zero, Some (ErrorNew errNotCloudsql)), mg, []) \<and>
      Create c mg = ((Map.empty, Some (ErrorNew errNotCloudsql)), mg, []) \<and>
      Update l c mg = ((Map.empty, Some (ErrorNew errNotCloudsql)), mg, []) \<and>
      Delete c mg = (Some (ErrorNew errNotCloudsql), mg, [])"
    by (cases mg) (simp_all add: Connect_def Observe_def Create_def Update_def Delete_def)
  have net: "\<forall>n. mg' \<noteq> Network n \<Longrightarrow>
      network_Connect f nc mg' = Some ((None, Some (ErrorNew errNotNetwork)), mg', nc, []) \<and>
      network_Observe c' mg' = ((ExternalObservation_zero, Some (ErrorNew errNotNetwork)), mg', []) \<and>
      network_Create c' mg' = ((Map.empty, Some (ErrorNew errNotNetwork)), mg', []) \<and>
      network_Update c' mg' = ((Map.empty, Some (ErrorNew errNotNetwork)), mg', []) \<and>
      network_Delete c' mg' = (Some (ErrorNew errNotNetwork), mg', [])"
    by (cases mg') (simp_all add: network_Connect_def network_Observe_def network_Create_def
        network_Update_def network_Delete_def)
  from db net show ?thesis
    by (simp add: errNotCloudsql_def errNotNetwork_def)
qed

theorem wrong_type_rejected_witness:
  "(\<forall>cr. Network ex_net \<noteq> CloudsqlInstance cr) \<and>
   Connect ex_lib ex_connector (Network ex_net)
     = Some ((None, Some (ErrorNew errNotCloudsql)), Network ex_net, ex_connector, []) \<and>
   Observe ex_lib (ex_database (ex_db (Inl ex_gone) None)) (Network ex_net)
     = ((ExternalObservation_zero, Some (ErrorNew errNotCloudsql)), Network ex_net, []) \<and>
   Create (ex_database (ex_db (Inl ex_gone) None)) (Network ex_net)
     = ((Map.empty, Some (ErrorNew errNotCloudsql)), Network ex_net, []) \<and>
   Update ex_lib (ex_database (ex_db (Inl ex_gone) None)) (Network ex_net)
     = ((Map.empty, Some (ErrorNew errNotCloudsql)), Network ex_net, []) \<and>
   Delete (ex_database (ex_db (Inl ex_gone) None)) (Network ex_net)
     = (Some (ErrorNew errNotCloudsql), Network ex_net, []) \<and>
   (\<forall>n. CloudsqlInstance ex_cr \<noteq> Network n) \<and>
   network_Connect (\<lambda>credentials. Inl ex_failure) ex_nconnector (CloudsqlInstance ex_cr)
     = Some ((None, Some (ErrorNew errNotNetwork)), CloudsqlInstance ex_cr, ex_nconnector, []) \<and>
   network_Observe (ex_networks (Inl ex_gone) None) (CloudsqlInstance ex_cr)
     = ((ExternalObservation_zero, Some (ErrorNew errNotNetwork)), CloudsqlInstance ex_cr, []) \<and>
   network_Create (ex_networks (Inl ex_gone) None) (CloudsqlInstance ex_cr)
     = ((Map.empty, Some (ErrorNew errNotNetwork)), CloudsqlInstance ex_cr, []) \<and>
   network_Update (ex_networks (Inl ex_gone) None) (CloudsqlInstance ex_cr)
     = ((Map.empty, Some (ErrorNew errNotNetwork)), CloudsqlInstance ex_cr, []) \<and>
   network_Delete (ex_networks (Inl ex_gone) None) (CloudsqlInstance ex_cr)
     = (Some (ErrorNew errNotNetwork), CloudsqlInstance ex_cr, [])"
  using wrong_type_rejected [of "Network ex_net" ex_lib ex_connector
      "ex_database (ex_db (Inl ex_gone) None)" "CloudsqlInstance ex_cr"
      "\<lambda>credentials. Inl ex_failure" ex_nconnector "ex_networks (Inl ex_gone) None"]
  by simp
section \<open>Late initialization\<close>

text \<open>
  Claim C9.  For every spec and observed instance, late initialization only moves fields
  from unset to the value the instance carries: a field already set in the spec keeps
  its value, also when the instance disagrees; a field unset in the spec ends up with the
  instance's value for it (and stays unset when the instance has none); the entries of
  the spec are kept as they were, in place.  The record that Observe leaves after a
  successful fetch carries the spec so initialised.
\<close>

theorem late_initialization_keeps_set_fields:
  "(map_of spec field = Some v \<longrightarrow> map_of (LateInitializeSpec spec instance) field = Some v) \<and>
   (map_of spec field = None \<longrightarrow>
      map_of (LateInitializeSpec spec instance) field = map_of (inst_Fields instance) field) \<and>
   take (length spec) (LateInitializeSpec spec instance) = spec \<and>
   (db_Get (db c) (projectID c) (cr_ExternalName cr) = Inr observed \<longrightarrow>
      (\<exists>cr'. fst (snd (Observe l c (CloudsqlInstance cr))) = CloudsqlInstance cr' \<and>
         cr_ForProvider cr' = LateInitializeSpec (cr_ForProvider cr) observed))"
proof (intro conjI impI)
  assume "map_of spec field = Some v"
  then show "map_of (LateInitializeSpec spec instance) field = Some v"
    by (simp add: LateInitializeSpec_def map_add_def map_of_filter_unset split: option.split)
next
  assume "map_of spec field = None"
  then show "map_of (LateInitializeSpec spec instance) field
      = map_of (inst_Fields instance) field"
    by (simp add: LateInitializeSpec_def map_add_def map_of_filter_unset split: option.split)
next
  show "take (length spec) (LateInitializeSpec spec instance) = spec"
    by (simp add: LateInitializeSpec_def)
next
  assume "db_Get (db c) (projectID c) (cr_ExternalName cr) = Inr observed"
  then show "\<exists>cr'. fst (snd (Observe l c (CloudsqlInstance cr))) = CloudsqlInstance cr' \<and>
         cr_ForProvider cr' = LateInitializeSpec (cr_ForProvider cr) observed"
    by (rule Observe_leaves_late_initialized)
qed

theorem late_initialization_keeps_set_fields_witness:
  "map_of [(''region'', ''us-west2'')] ''region'' = Some ''us-west2'' \<and>
   map_of (LateInitializeSpec [(''region'', ''us-west2'')]
      (ex_instance StateRunnable [(''region'', ''europe-west1''), (''tier'', ''db-f1-micro'')]))
      ''region'' = Some ''us-west2'' \<and>
   map_of [(''region'', ''us-west2'')] ''tier'' = None \<and>
   map_of (LateInitializeSpec [(''region'', ''us-west2'')]
      (ex_instance StateRunnable [(''region'', ''europe-west1''), (''tier'', ''db-f1-micro'')]))
      ''tier'' = Some ''db-f1-micro'' \<and>
   (\<exists>cr'. fst (snd (Observe ex_lib
        (ex_observing
           (ex_instance StateRunnable [(''region'', ''europe-west1''), (''tier'', ''db-f1-micro'')])
           None)
        (CloudsqlInstance ex_cr))) = CloudsqlInstance cr' \<and>
      cr_ForProvider cr' = [(''region'', ''us-west2''), (''tier'', ''db-f1-micro'')])"
proof -
  let ?i = "ex_instance StateRunnable [(''region'', ''europe-west1''), (''tier'', ''db-f1-micro'')]"
  have set: "map_of [(''region'', ''us-west2'')] ''region'' = Some ''us-west2''"
    and unset: "map_of [(''region'', ''us-west2'')] ''tier'' = None"
    by simp_all
  have fetched: "db_Get (db (ex_observing ?i None)) (projectID (ex_observing ?i None))
      (cr_ExternalName ex_cr) = Inr ?i"
    by (simp add: ex_observing_def ex_db_def)
  have fields: "map_of (inst_Fields ?i) ''tier'' = Some ''db-f1-micro''"
    by (simp add: ex_instance_def)
  have late: "LateInitializeSpec (cr_ForProvider ex_cr) ?i
      = [(''region'', ''us-west2''), (''tier'', ''db-f1-micro'')]"
    by (simp add: LateInitializeSpec_def ex_cr_def ex_instance_def)
  from late_initialization_keeps_set_fields [of "[(''region'', ''us-west2'')]" "''region''"
      "''us-west2''" ?i "ex_observing ?i None" ex_cr ?i ex_lib, THEN conjunct1, THEN mp, OF set]
    late_initialization_keeps_set_fields [of "[(''region'', ''us-west2'')]" "''tier''"
      "''us-west2''" ?i "ex_observing ?i None" ex_cr ?i ex_lib, THEN conjunct2, THEN conjunct1,
      THEN mp, OF unset]
    late_initialization_keeps_set_fields [of "[(''region'', ''us-west2'')]" "''tier''"
      "''us-west2''" ?i "ex_observing ?i None" ex_cr ?i ex_lib, THEN conjunct2, THEN conjunct2,
      THEN conjunct2, THEN mp, OF fetched]
    set unset fields late
  show ?thesis by simp
qed

end
